theory Spec2Isabelle
  imports Main
begin

text \<open>
  The session, link and request protocol of \<^verbatim>\<open>src/lib/BeetConnection.js\<close>: the
  class \<^verbatim>\<open>BeetConnection\<close> with its methods \<^verbatim>\<open>reset\<close>, \<^verbatim>\<open>fetch_ids\<close>,
  \<^verbatim>\<open>sendRequest\<close>, \<^verbatim>\<open>setAuth\<close>, \<^verbatim>\<open>connect\<close> and \<^verbatim>\<open>link\<close>, and the handlers that
  \<^verbatim>\<open>connect\<close> registers on the socket.
\<close>

section \<open>JavaScript values\<close>

text \<open>
  The values that \<^verbatim>\<open>BeetConnection\<close> stores and passes through: identities, payloads,
  correlation ids and keys arrive from the caller or from the wire and are dynamically
  typed. Numbers are restricted to the integers of magnitude below \<open>10^21\<close>, which
  JavaScript prints in decimal, and arrays are left out; an object is the list of its
  properties.
\<close>

datatype jsval =
    JUndefined
  | JNull
  | JBool bool
  | JNum int
  | JStr string
  | JObj "(string \<times> jsval) list"

type_synonym obj = "(string \<times> jsval) list"

text \<open>Truthiness, as used by \<^verbatim>\<open>if (x)\<close>, \<^verbatim>\<open>!x\<close> and \<^verbatim>\<open>a && b\<close>.\<close>

fun truthy :: "jsval \<Rightarrow> bool" where
  "truthy JUndefined = False"
| "truthy JNull = False"
| "truthy (JBool b) = b"
| "truthy (JNum n) = (n \<noteq> 0)"
| "truthy (JStr s) = (s \<noteq> [])"
| "truthy (JObj _) = True"

text \<open>\<^verbatim>\<open>o.k\<close> on an object: the property's value, \<^verbatim>\<open>undefined\<close> when it is absent.\<close>

fun get_prop :: "obj \<Rightarrow> string \<Rightarrow> jsval" where
  "get_prop [] k = JUndefined"
| "get_prop ((k', v) # ps) k = (if k' = k then v else get_prop ps k)"

text \<open>\<^verbatim>\<open>o.k = v\<close>: overwrite the property in place, or add it after the others.\<close>

fun set_prop :: "obj \<Rightarrow> string \<Rightarrow> jsval \<Rightarrow> obj" where
  "set_prop [] k v = [(k, v)]"
| "set_prop ((k', v') # ps) k v = (if k' = k then (k, v) # ps else (k', v') # set_prop ps k v)"

text \<open>
  \<^verbatim>\<open>Object.assign(target, source)\<close>: every own property of the source is written to the
  target, in order. A source that is \<^verbatim>\<open>undefined\<close>, \<^verbatim>\<open>null\<close>, a boolean or a number
  has no own properties. (A string source, whose characters would be copied under their
  indices, does not occur as the \<^verbatim>\<open>requested\<close> field of a wire message and is treated
  like the other primitives.)
\<close>

fun assign_props :: "obj \<Rightarrow> obj \<Rightarrow> obj" where
  "assign_props target [] = target"
| "assign_props target ((k, v) # ps) = assign_props (set_prop target k v) ps"

fun object_assign :: "obj \<Rightarrow> jsval \<Rightarrow> obj" where
  "object_assign target (JObj src) = assign_props target src"
| "object_assign target _ = target"

text \<open>
  Decimal rendering of an integer, for \<^verbatim>\<open>Number.prototype.toString\<close> on the numbers
  of the model (from \<open>10^21\<close> on JavaScript prints an exponent).
\<close>

definition digit_char :: "nat \<Rightarrow> char" where
  "digit_char d = char_of (48 + d)"

function string_of_nat :: "nat \<Rightarrow> string" where
  "string_of_nat n =
     (if n < 10 then [digit_char n] else string_of_nat (n div 10) @ [digit_char (n mod 10)])"
  by pat_completeness auto
termination
  by (relation "measure id") auto

declare string_of_nat.simps [simp del]

definition string_of_int :: "int \<Rightarrow> string" where
  "string_of_int i =
     (if i < 0 then CHR ''-'' # string_of_nat (nat (- i)) else string_of_nat (nat i))"

text \<open>
  \<^verbatim>\<open>x.toString()\<close>: a \<^verbatim>\<open>TypeError\<close> (\<open>None\<close>) on \<^verbatim>\<open>undefined\<close> and \<^verbatim>\<open>null\<close>;
  a plain object prints as \<^verbatim>\<open>[object Object]\<close>.
\<close>

fun js_toString :: "jsval \<Rightarrow> string option" where
  "js_toString JUndefined = None"
| "js_toString JNull = None"
| "js_toString (JBool b) = Some (if b then ''true'' else ''false'')"
| "js_toString (JNum n) = Some (string_of_int n)"
| "js_toString (JStr s) = Some s"
| "js_toString (JObj _) = Some ''[object Object]''"

text \<open>
  \<^verbatim>\<open>a === b\<close> between a stored value and a value decoded from a wire message: equal
  primitives of the same type. Two objects are equal only when they are the same
  reference, which a freshly decoded message never is.
\<close>

fun strict_eq :: "jsval \<Rightarrow> jsval \<Rightarrow> bool" where
  "strict_eq (JObj _) (JObj _) = False"
| "strict_eq a b = (a = b)"

section \<open>External libraries\<close>

text \<open>The \<^verbatim>\<open>OTPAuth.HOTP\<close> instance: its secret and its counter.\<close>

record hotp =
  hotp_secret :: string
  counter :: jsval

text \<open>
  The functions of \<^verbatim>\<open>crypto-js\<close>, \<^verbatim>\<open>otpauth\<close>, \<^verbatim>\<open>@noble/ed25519\<close> and of the
  JavaScript runtime that the connection calls are parameters of the model. \<open>None\<close> (or
  \<open>Inl\<close>) is a thrown exception. Hashing a string and generating a one-time key always
  return; \<^verbatim>\<open>generate()\<close> is a method of a mutable instance, so it returns the key
  together with the instance as the call leaves it. \<open>shared_secret_hex\<close> is
  \<^verbatim>\<open>getSharedSecret\<close> followed by \<^verbatim>\<open>bytesToHex\<close>, \<open>public_key_hex\<close> is
  \<^verbatim>\<open>getPublicKey\<close> followed by \<^verbatim>\<open>bytesToHex\<close>. The values drawn from
  \<^verbatim>\<open>uuidv4()\<close> and \<^verbatim>\<open>randomPrivateKey()\<close> are arguments of the operation that
  draws them.
\<close>

record lib =
  sha256_str :: "string \<Rightarrow> string"
  sha256_other :: "jsval \<Rightarrow> string option"
  secret_fromHex :: "jsval \<Rightarrow> string option"
  hotp_generate :: "hotp \<Rightarrow> string \<times> hotp"
  aes_encrypt :: "string \<Rightarrow> string \<Rightarrow> string"
  aes_decrypt :: "jsval \<Rightarrow> string \<Rightarrow> string + string"
  json_stringify :: "jsval \<Rightarrow> string"
  shared_secret_hex :: "string \<Rightarrow> jsval \<Rightarrow> string option"
  public_key_hex :: "string \<Rightarrow> string option"
  string_to_number :: "string \<Rightarrow> int option"

text \<open>\<^verbatim>\<open>sha256(x).toString()\<close>.\<close>

definition sha256 :: "lib \<Rightarrow> jsval \<Rightarrow> string option" where
  "sha256 L v = (case v of JStr s \<Rightarrow> Some (sha256_str L s) | _ \<Rightarrow> sha256_other L v)"

text \<open>
  \<^verbatim>\<open>v == 2\<close>: a number is compared as it is, a string after conversion to a number;
  booleans convert to 0 or 1, \<^verbatim>\<open>undefined\<close>, \<^verbatim>\<open>null\<close> and plain objects never equal 2.
\<close>

definition loose_eq_2 :: "lib \<Rightarrow> jsval \<Rightarrow> bool" where
  "loose_eq_2 L v =
     (case v of JNum n \<Rightarrow> n = 2 | JStr s \<Rightarrow> string_to_number L s = Some 2 | _ \<Rightarrow> False)"

section \<open>The connection\<close>

text \<open>
  The wallet's messages, as the handlers read them. A message and its \<^verbatim>\<open>payload\<close> are
  objects, as in the wire vocabulary; a boolean field is the truthiness of the field the
  code tests or stores (\<^verbatim>\<open>auth.payload.link\<close>, \<^verbatim>\<open>linkRequest.error\<close>,
  \<^verbatim>\<open>msg.encrypted\<close>, ...). The payload of an \<^verbatim>\<open>api\<close> message is any value: a
  ciphertext, a result, or the error object with its \<^verbatim>\<open>code\<close>.
\<close>

record auth_msg =
  auth_link :: bool
  auth_authenticate :: bool
  auth_pub_key :: jsval
  auth_requested :: jsval

record link_msg =
  lm_id :: jsval
  lm_error :: bool
  lm_link :: bool
  lm_authenticate :: bool
  lm_existing :: bool
  lm_identityhash :: jsval
  lm_chain :: jsval
  lm_requested :: jsval

record api_msg =
  am_id :: jsval
  am_error :: bool
  am_encrypted :: bool
  am_payload :: jsval

text \<open>
  What a promise is settled with: a plain value, a whole \<^verbatim>\<open>link\<close> or
  \<^verbatim>\<open>authenticated\<close> message, or an exception object.
\<close>

datatype reply = Val jsval | LinkMsg link_msg | AuthMsg auth_msg | Exn string

datatype settled = Pending | Resolved reply | Rejected reply

text \<open>
  An entry of \<^verbatim>\<open>this.requests\<close>: the request with the \<^verbatim>\<open>resolve\<close> and \<^verbatim>\<open>reject\<close>
  of the promise that \<^verbatim>\<open>sendRequest\<close> returned, here the promise's index.
\<close>

record request =
  rq_type :: string
  rq_id :: jsval
  rq_payload :: jsval
  rq_promise :: nat

record connection =
  appName :: jsval
  appHash :: jsval
  browser :: jsval
  origin :: jsval
  identity :: "obj option"
  conn_id :: jsval
  next_identification :: jsval
  connected :: bool
  authenticated :: bool
  linked :: bool
  otp :: "hotp option"
  requests :: "request list"
  socket :: "nat option"
  secret :: jsval
  beetkey :: jsval

text \<open>
  The flags hold the truthiness of what the code stores in them. \<open>identity\<close>, \<open>otp\<close>
  and \<open>socket\<close> are \<open>None\<close> for \<^verbatim>\<open>null\<close>; \<open>secret\<close> and \<open>beetkey\<close>, which the
  constructor does not set, start as \<open>JUndefined\<close>.
\<close>

definition new_connection :: "jsval \<Rightarrow> jsval \<Rightarrow> jsval \<Rightarrow> jsval \<Rightarrow> obj option \<Rightarrow> connection" where
  "new_connection an ah br orig idn =
     \<lparr> appName = an, appHash = ah, browser = br, origin = orig, identity = idn,
       conn_id = JNull, next_identification = JNull,
       connected = False, authenticated = False, linked = False,
       otp = None, requests = [], socket = None,
       secret = JUndefined, beetkey = JUndefined \<rparr>"

definition reset :: "connection \<Rightarrow> connection" where
  "reset c = c\<lparr> connected := False, authenticated := False, identity := None,
               linked := False, socket := None, otp := None, requests := [] \<rparr>"

text \<open>
  Around the connection: the promises handed to callers (a promise settles once; later
  calls of \<^verbatim>\<open>resolve\<close> or \<^verbatim>\<open>reject\<close> do nothing), and the trace of what leaves the
  object: messages emitted on the socket, the calls of the cipher with the state of the
  one-time-password generator that produced the key, and exceptions that nothing catches.

  Every operation and every handler below runs to its end, or to the \<^verbatim>\<open>await\<close> of a
  promise of its own, before the next one starts: the channel delivers its events one
  at a time. Two calls started in the same turn without waiting for the first, and
  events that arrive while \<^verbatim>\<open>link\<close> waits for the key agreement, are outside the model.
\<close>

datatype event =
    Emit string jsval jsval
  | Encrypted hotp string
  | Decrypted hotp jsval
  | Uncaught string

record world =
  conn :: connection
  promises :: "settled list"
  trace :: "event list"

definition promise_of :: "world \<Rightarrow> nat \<Rightarrow> settled option" where
  "promise_of w p = (if p < length (promises w) then Some (promises w ! p) else None)"

definition settle :: "nat \<Rightarrow> settled \<Rightarrow> settled list \<Rightarrow> settled list" where
  "settle p s ps = (if p < length ps \<and> ps ! p = Pending then ps[p := s] else ps)"

definition resolve :: "nat \<Rightarrow> reply \<Rightarrow> world \<Rightarrow> world" where
  "resolve p v w = w\<lparr> promises := settle p (Resolved v) (promises w) \<rparr>"

definition reject :: "nat \<Rightarrow> reply \<Rightarrow> world \<Rightarrow> world" where
  "reject p e w = w\<lparr> promises := settle p (Rejected e) (promises w) \<rparr>"

definition uncaught :: "string \<Rightarrow> world \<Rightarrow> world" where
  "uncaught e w = w\<lparr> trace := trace w @ [Uncaught e] \<rparr>"

definition new_promise :: "world \<Rightarrow> nat \<times> world" where
  "new_promise w = (length (promises w), w\<lparr> promises := promises w @ [Pending] \<rparr>)"

subsection \<open>fetch\_ids\<close>

text \<open>\<open>uuid\<close> is the value of \<^verbatim>\<open>uuidv4()\<close>. The result is \<open>(id, next_hash)\<close>.\<close>

definition fetch_ids ::
  "lib \<Rightarrow> string \<Rightarrow> connection \<Rightarrow> string + ((jsval \<times> string) \<times> connection)" where
  "fetch_ids L uuid c =
     (if connected c \<and> authenticated c \<and> linked c then
        let rid = next_identification c;
            new_id = uuid;
            c1 = c\<lparr> next_identification := JStr new_id \<rparr>;
            next_hash = sha256_str L new_id
        in Inr ((rid, next_hash), c1)
      else Inl ''You must be connected, authorised and linked.'')"

subsection \<open>sendRequest\<close>

text \<open>
  \<^verbatim>\<open>this.requests.push(...)\<close> followed by \<^verbatim>\<open>this.socket.emit(type, request)\<close>.
\<close>

definition push_and_emit :: "request \<Rightarrow> world \<Rightarrow> world" where
  "push_and_emit r w =
     w\<lparr> conn := (conn w)\<lparr> requests := requests (conn w) @ [r] \<rparr>,
        trace := trace w @ [Emit (rq_type r) (rq_id r) (rq_payload r)] \<rparr>"

text \<open>
  The body runs as the \<^verbatim>\<open>async\<close> executor of \<^verbatim>\<open>new Promise\<close>: the promise settles
  only where the body calls \<^verbatim>\<open>resolve\<close> or \<^verbatim>\<open>reject\<close>. An exception thrown in the body
  rejects the promise that the executor itself returns, which nobody holds, so the promise
  handed to the caller stays pending. The result is that promise and the new world.
  Setting \<^verbatim>\<open>payload.next_hash\<close> throws unless the payload is an object (the module is
  strict code); \<^verbatim>\<open>this.otp.counter = ...\<close> throws while \<^verbatim>\<open>this.otp\<close> is \<^verbatim>\<open>null\<close>.
\<close>

definition sendRequest :: "lib \<Rightarrow> string \<Rightarrow> string \<Rightarrow> jsval \<Rightarrow> world \<Rightarrow> nat \<times> world" where
  "sendRequest L uuid type payload w0 =
     (case new_promise w0 of (p, w) \<Rightarrow>
        if \<not> connected (conn w) \<or> socket (conn w) = None then
          (p, reject p (Val (JStr ''No beeteos ws connection.'')) w)
        else if type = ''api'' then
          (case fetch_ids L uuid (conn w) of
             Inl e \<Rightarrow> (p, uncaught e w)
           | Inr ((rid, next_hash), c1) \<Rightarrow>
               (case payload of
                  JObj fs \<Rightarrow>
                    (case otp c1 of
                       None \<Rightarrow> (p, uncaught ''TypeError'' (w\<lparr> conn := c1 \<rparr>))
                     | Some o0 \<Rightarrow>
                         let o1 = o0\<lparr> counter := rid \<rparr> in
                         (case hotp_generate L o1 of (key, o2) \<Rightarrow>
                            let plain = json_stringify L (JObj (set_prop fs ''next_hash'' (JStr next_hash)));
                                r = \<lparr> rq_type = type, rq_id = rid,
                                      rq_payload = JStr (aes_encrypt L plain key), rq_promise = p \<rparr>
                            in (p, push_and_emit r
                                     (w\<lparr> conn := c1\<lparr> otp := Some o2 \<rparr>,
                                        trace := trace w @ [Encrypted o1 plain] \<rparr>))))
                | _ \<Rightarrow> (p, uncaught ''TypeError'' (w\<lparr> conn := c1 \<rparr>))))
        else
          (p, push_and_emit
                \<lparr> rq_type = type, rq_id = JStr uuid, rq_payload = payload, rq_promise = p \<rparr> w))"

subsection \<open>setAuth\<close>

definition setAuth :: "auth_msg \<Rightarrow> connection \<Rightarrow> connection" where
  "setAuth authToken c =
     (let c1 = c\<lparr> authenticated := auth_authenticate authToken, linked := auth_link authToken \<rparr>
      in if \<not> auth_link authToken then c1\<lparr> beetkey := auth_pub_key authToken \<rparr> else c1)"

subsection \<open>connect and the socket's event handlers\<close>

text \<open>
  \<open>sock\<close> is the result of \<^verbatim>\<open>io(...)\<close>: the new socket, or \<open>None\<close> when the call
  throws. The handlers that \<^verbatim>\<open>connect\<close> registers are the functions \<open>on_connect\<close>,
  \<open>on_authenticated\<close>, \<open>on_link\<close>, \<open>on_api\<close> and \<open>on_disconnect\<close> below; the channel
  runs them one at a time. The result is the promise that \<^verbatim>\<open>connect\<close> returns, which the
  \<^verbatim>\<open>authenticated\<close> handler resolves.
\<close>

definition connect :: "obj option \<Rightarrow> nat option \<Rightarrow> world \<Rightarrow> nat \<times> world" where
  "connect identity' sock w0 =
     (case new_promise w0 of (p, w) \<Rightarrow>
        let c = (case identity' of
                   None \<Rightarrow> reset (conn w)
                 | Some idn \<Rightarrow> (conn w)\<lparr> identity := Some idn \<rparr>)
        in (case sock of
              None \<Rightarrow> (p, reject p (Val (JBool False)) (w\<lparr> conn := c \<rparr>))
            | Some s \<Rightarrow> (p, w\<lparr> conn := c\<lparr> socket := Some s \<rparr> \<rparr>)))"

text \<open>
  The \<^verbatim>\<open>connect\<close> event. \<open>identity'\<close> is the argument of the \<^verbatim>\<open>connect\<close> call that
  registered the handler, \<open>uuid\<close> the value of \<^verbatim>\<open>uuidv4()\<close>.
\<close>

definition on_connect :: "obj option \<Rightarrow> string \<Rightarrow> world \<Rightarrow> world" where
  "on_connect identity' uuid w =
     (let c = (conn w)\<lparr> connected := True \<rparr>;
          base = [(''origin'', origin c), (''appName'', appName c), (''browser'', browser c)];
          payload = (case identity' of
                       None \<Rightarrow> base
                     | Some idn \<Rightarrow>
                         if truthy (get_prop idn ''identityhash'')
                         then base @ [(''identityhash'', get_prop idn ''identityhash'')]
                         else base)
      in w\<lparr> conn := c, trace := trace w @ [Emit ''authenticate'' (JStr uuid) (JObj payload)] \<rparr>)"

text \<open>
  The \<^verbatim>\<open>authenticated\<close> event; \<open>p\<close> is the promise of the \<^verbatim>\<open>connect\<close> call.
  \<^verbatim>\<open>this.identity.secret\<close> throws while \<^verbatim>\<open>this.identity\<close> is \<^verbatim>\<open>null\<close>.
\<close>

definition on_authenticated :: "lib \<Rightarrow> nat \<Rightarrow> auth_msg \<Rightarrow> world \<Rightarrow> world" where
  "on_authenticated L p auth w =
     (let c = conn w in
      if auth_link auth then
        (case identity c of
           None \<Rightarrow> uncaught ''TypeError'' w
         | Some idn \<Rightarrow>
             (case secret_fromHex L (get_prop idn ''secret'') of
                None \<Rightarrow> uncaught ''fromHex'' w
              | Some s \<Rightarrow>
                  resolve p (AuthMsg auth)
                    (w\<lparr> conn := c\<lparr> otp := Some \<lparr> hotp_secret = s, counter = JNum 0 \<rparr>,
                                     identity := Some (object_assign idn (auth_requested auth)) \<rparr> \<rparr>)))
      else
        resolve p (AuthMsg auth) (w\<lparr> conn := c\<lparr> beetkey := auth_pub_key auth \<rparr> \<rparr>))"

text \<open>
  \<^verbatim>\<open>this.requests.find(x => x.id === msg.id || x.id.toString() === msg.id)\<close>: the first
  entry that matches, in the order of the list; \<open>Inl\<close> when the predicate throws on an
  entry whose id is \<^verbatim>\<open>undefined\<close> or \<^verbatim>\<open>null\<close>.
\<close>

fun find_request :: "request list \<Rightarrow> jsval \<Rightarrow> string + request option" where
  "find_request [] i = Inr None"
| "find_request (x # xs) i =
     (if strict_eq (rq_id x) i then Inr (Some x)
      else (case js_toString (rq_id x) of
              None \<Rightarrow> Inl ''TypeError''
            | Some s \<Rightarrow> if strict_eq (JStr s) i then Inr (Some x) else find_request xs i))"

text \<open>
  The \<^verbatim>\<open>link\<close> event. \<open>fresh_identity\<close> is the object literal that replaces
  \<^verbatim>\<open>this.identity\<close> unless the message says \<^verbatim>\<open>existing\<close> and an identity is stored.
\<close>

definition fresh_identity :: "connection \<Rightarrow> link_msg \<Rightarrow> obj" where
  "fresh_identity c linkRequest =
     [(''apphash'', appHash c),
      (''identityhash'', lm_identityhash linkRequest),
      (''chain'', lm_chain linkRequest),
      (''appName'', appName c),
      (''secret'', secret c),
      (''next_id'', next_identification c),
      (''requested'', lm_requested linkRequest)]"

definition on_link :: "lib \<Rightarrow> link_msg \<Rightarrow> world \<Rightarrow> world" where
  "on_link L linkRequest w =
     (case find_request (requests (conn w)) (lm_id linkRequest) of
        Inl e \<Rightarrow> uncaught e w
      | Inr None \<Rightarrow> w
      | Inr (Some relevantRequest) \<Rightarrow>
          let w1 = (if lm_error linkRequest
                    then reject (rq_promise relevantRequest) (LinkMsg linkRequest) w else w);
              c = conn w1;
              c1 = c\<lparr> linked := lm_link linkRequest,
                      authenticated := lm_authenticate linkRequest,
                      identity := Some
                        (if lm_existing linkRequest then
                           (case identity c of
                              Some idn \<Rightarrow> object_assign idn (lm_requested linkRequest)
                            | None \<Rightarrow> fresh_identity c linkRequest)
                         else fresh_identity c linkRequest) \<rparr>
          in (case secret_fromHex L (secret c1) of
                None \<Rightarrow> uncaught ''fromHex'' (w1\<lparr> conn := c1 \<rparr>)
              | Some s \<Rightarrow>
                  resolve (rq_promise relevantRequest) (LinkMsg linkRequest)
                    (w1\<lparr> conn := c1\<lparr> otp := Some \<lparr> hotp_secret = s, counter = JNum 0 \<rparr> \<rparr> \<rparr>)))"

text \<open>
  The \<^verbatim>\<open>api\<close> event. First the error branch: \<^verbatim>\<open>msg.payload.code\<close> throws (\<open>None\<close>) on
  a payload that is \<^verbatim>\<open>undefined\<close> or \<^verbatim>\<open>null\<close> and is \<^verbatim>\<open>undefined\<close> on any other
  payload that is not an object.
\<close>

definition api_error :: "lib \<Rightarrow> api_msg \<Rightarrow> request \<Rightarrow> world \<Rightarrow> world option" where
  "api_error L msg relevantRequest w =
     (if am_error msg then
        (case am_payload msg of
           JUndefined \<Rightarrow> None
         | JNull \<Rightarrow> None
         | JObj fs \<Rightarrow>
             Some (reject (rq_promise relevantRequest) (Val (am_payload msg))
                     (if loose_eq_2 L (get_prop fs ''code'')
                      then w\<lparr> conn := reset (conn w) \<rparr> else w))
         | _ \<Rightarrow> Some (reject (rq_promise relevantRequest) (Val (am_payload msg)) w))
      else Some w)"

definition on_api :: "lib \<Rightarrow> api_msg \<Rightarrow> world \<Rightarrow> world" where
  "on_api L msg w =
     (case find_request (requests (conn w)) (am_id msg) of
        Inl e \<Rightarrow> uncaught e w
      | Inr None \<Rightarrow> w
      | Inr (Some relevantRequest) \<Rightarrow>
          (case api_error L msg relevantRequest w of
             None \<Rightarrow> uncaught ''TypeError'' w
           | Some w1 \<Rightarrow>
               if am_encrypted msg then
                 (case otp (conn w1) of
                    None \<Rightarrow> uncaught ''TypeError'' w1
                  | Some o0 \<Rightarrow>
                      let o1 = o0\<lparr> counter := am_id msg \<rparr> in
                      (case hotp_generate L o1 of (key, o2) \<Rightarrow>
                         let w2 = w1\<lparr> conn := (conn w1)\<lparr> otp := Some o2 \<rparr>,
                                     trace := trace w1 @ [Decrypted o1 (am_payload msg)] \<rparr>
                         in (case aes_decrypt L (am_payload msg) key of
                               Inl error \<Rightarrow>
                                 resolve (rq_promise relevantRequest) (Val JUndefined)
                                   (reject (rq_promise relevantRequest) (Exn error) w2)
                             | Inr decryptedValue \<Rightarrow>
                                 resolve (rq_promise relevantRequest) (Val (JStr decryptedValue)) w2)))
               else resolve (rq_promise relevantRequest) (Val (am_payload msg)) w1))"

text \<open>The \<^verbatim>\<open>disconnect\<close> event.\<close>

definition on_disconnect :: "connection \<Rightarrow> connection" where
  "on_disconnect c = c\<lparr> connected := False, socket := None, requests := [] \<rparr>"

subsection \<open>link\<close>

text \<open>
  \<open>identity_prop c k\<close> is the value of \<^verbatim>\<open>this.identity && this.identity.k\<close>.
\<close>

definition identity_prop :: "connection \<Rightarrow> string \<Rightarrow> jsval" where
  "identity_prop c k = (case identity c of None \<Rightarrow> JNull | Some idn \<Rightarrow> get_prop idn k)"

text \<open>
  \<^verbatim>\<open>link\<close> runs up to its \<^verbatim>\<open>await this.sendRequest(...)\<close> (\<open>link_start\<close>) and goes on
  when that promise has settled (\<open>link_resume\<close>). It throws, returns, or is waiting for
  the promise. \<open>privk\<close> is the value of \<^verbatim>\<open>randomPrivateKey()\<close>, \<open>uuid1\<close> the
  \<^verbatim>\<open>uuidv4()\<close> drawn for \<^verbatim>\<open>next_id\<close>, \<open>uuid2\<close> the one that \<^verbatim>\<open>sendRequest\<close> draws
  for the id of the request.
\<close>

datatype link_result = LinkThrew string | LinkReturned reply | LinkAwaiting nat

text \<open>From \<^verbatim>\<open>this.next_identification = next_id\<close> on.\<close>

definition link_send :: "lib \<Rightarrow> string \<Rightarrow> obj \<Rightarrow> jsval \<Rightarrow> world \<Rightarrow> link_result \<times> world" where
  "link_send L uuid2 linkObj next_id w0 =
     (let w = w0\<lparr> conn := (conn w0)\<lparr> next_identification := next_id \<rparr> \<rparr> in
      case sha256 L next_id of
        None \<Rightarrow> (LinkReturned (Val JUndefined), w)
      | Some next_hash \<Rightarrow>
          let linkObj1 = set_prop linkObj ''next_hash'' (JStr next_hash) in
          if truthy (identity_prop (conn w) ''identityhash'') then
            (case sendRequest L uuid2 ''relinkRequest''
                    (JObj (set_prop linkObj1 ''identityhash'' (identity_prop (conn w) ''identityhash''))) w
             of (p, w1) \<Rightarrow> (LinkAwaiting p, w1))
          else
            (case sendRequest L uuid2 ''linkRequest'' (JObj linkObj1) w
             of (p, w1) \<Rightarrow> (LinkAwaiting p, w1)))"

definition link_start ::
  "lib \<Rightarrow> string \<Rightarrow> string \<Rightarrow> string \<Rightarrow> jsval \<Rightarrow> jsval \<Rightarrow> world \<Rightarrow> link_result \<times> world" where
  "link_start L privk uuid1 uuid2 chain requestDetails w =
     (let c = conn w in
      if \<not> connected c then (LinkThrew ''You must connect to beeteos first.'', w)
      else
        let linkObj = [(''chain'', chain), (''request'', requestDetails)] in
        if truthy (identity_prop c ''identityhash'') then
          let next_id = identity_prop c ''next_id'' in
          link_send L uuid2 linkObj next_id
            (w\<lparr> conn := c\<lparr> next_identification := next_id,
                            secret := identity_prop c ''secret'' \<rparr> \<rparr>)
        else if \<not> truthy (beetkey c) then (LinkReturned (Val JUndefined), w)
        else
          (case shared_secret_hex L privk (beetkey c) of
             None \<Rightarrow> (LinkReturned (Val JUndefined), w)
           | Some hex \<Rightarrow>
               let w1 = w\<lparr> conn := c\<lparr> secret := JStr hex \<rparr> \<rparr>;
                   next_id = JStr uuid1
               in (case public_key_hex L privk of
                     None \<Rightarrow> (LinkReturned (Val JUndefined), w1)
                   | Some pubk \<Rightarrow>
                       link_send L uuid2 (set_prop linkObj ''pubkey'' (JStr pubk)) next_id w1)))"

text \<open>
  After the \<^verbatim>\<open>await\<close>: a rejected promise is caught, the identity is set to \<^verbatim>\<open>null\<close>
  and \<^verbatim>\<open>link\<close> returns \<^verbatim>\<open>undefined\<close>; a resolved one gives the value returned.
\<close>

definition link_resume :: "nat \<Rightarrow> world \<Rightarrow> link_result \<times> world" where
  "link_resume p w =
     (case promise_of w p of
        Some (Rejected error) \<Rightarrow>
          (LinkReturned (Val JUndefined), w\<lparr> conn := (conn w)\<lparr> identity := None \<rparr> \<rparr>)
      | Some (Resolved sentRequest) \<Rightarrow> (LinkReturned sentRequest, w)
      | _ \<Rightarrow> (LinkAwaiting p, w))"

section \<open>A small instance of the libraries\<close>

text \<open>
  Simple stand-ins for the library functions, to run the operations on concrete inputs.
  Keys and secrets are short hexadecimal strings. \<^verbatim>\<open>fromHex\<close> accepts a string of
  hexadecimal digits and throws on anything else. The one-time key is the secret
  followed by the counter, a ciphertext is the key followed by the plaintext, and an
  object is serialized as its properties, \<^verbatim>\<open>key=value;\<close> each.
  Decrypting a ciphertext under another key does not throw but returns the empty
  string, as \<^verbatim>\<open>crypto-js\<close> does when the padding comes out invalid; decrypting what is
  no ciphertext at all throws.
\<close>

definition is_hex :: "string \<Rightarrow> bool" where
  "is_hex s = list_all (\<lambda>c. c \<in> set ''0123456789abcdefABCDEF'') s"

definition stub_stringify :: "jsval \<Rightarrow> string" where
  "stub_stringify v =
     (case v of
        JStr s \<Rightarrow> s
      | JObj fs \<Rightarrow>
          concat (map (\<lambda>(k, x). k @ ''='' @ (case x of JStr s \<Rightarrow> s | _ \<Rightarrow> ''?'') @ '';'') fs)
      | _ \<Rightarrow> ''null'')"

definition stub_lib :: lib where
  "stub_lib =
     \<lparr> sha256_str = (\<lambda>s. ''sha256:'' @ s),
       sha256_other = (\<lambda>v. None),
       secret_fromHex = (\<lambda>v. case v of JStr s \<Rightarrow> if is_hex s then Some s else None | _ \<Rightarrow> None),
       hotp_generate =
         (\<lambda>h. (hotp_secret h @ ''/'' @ (case js_toString (counter h) of Some s \<Rightarrow> s | None \<Rightarrow> []), h)),
       aes_encrypt = (\<lambda>plain key. key @ ''|'' @ plain),
       aes_decrypt =
         (\<lambda>ct key. case ct of
             JStr s \<Rightarrow>
               if take (length key + 1) s = key @ ''|'' then Inr (drop (length key + 1) s)
               else if CHR ''|'' \<in> set s then Inr []
               else Inl ''Malformed UTF-8 data''
           | _ \<Rightarrow> Inl ''Malformed UTF-8 data''),
       json_stringify = stub_stringify,
       shared_secret_hex = (\<lambda>k pub. Some (''5e'' @ k)),
       public_key_hex = (\<lambda>k. Some (''9b'' @ k)),
       string_to_number = (\<lambda>s. if s = ''2'' then Some 2 else None) \<rparr>"

section \<open>Properties the claims speak of\<close>

text \<open>
  The session invariant of the specification: linked implies authenticated,
  authenticated implies connected, and a cipher state (\<open>otp\<close>) implies linked.
\<close>

definition session_inv :: "connection \<Rightarrow> bool" where
  "session_inv c \<longleftrightarrow>
     (linked c \<longrightarrow> authenticated c) \<and> (authenticated c \<longrightarrow> connected c)
     \<and> (otp c \<noteq> None \<longrightarrow> linked c)"

text \<open>
  What the \<^verbatim>\<open>authenticated\<close> handler seeds the cipher with:
  \<^verbatim>\<open>fromHex(this.identity.secret)\<close>, or \<open>None\<close> when reading the secret throws (no
  identity) or decoding it throws.
\<close>

definition cipher_from_identity :: "lib \<Rightarrow> connection \<Rightarrow> string option" where
  "cipher_from_identity L c =
     (case identity c of None \<Rightarrow> None | Some idn \<Rightarrow> secret_fromHex L (get_prop idn ''secret''))"

text \<open>
  An \<^verbatim>\<open>api\<close> response that makes the handler call \<^verbatim>\<open>this.reset()\<close>: it carries an
  error whose payload is an object with \<^verbatim>\<open>code == 2\<close>. And one on which reading
  \<^verbatim>\<open>msg.payload.code\<close> throws.
\<close>

definition api_resets :: "lib \<Rightarrow> api_msg \<Rightarrow> bool" where
  "api_resets L msg \<longleftrightarrow>
     am_error msg \<and>
     (case am_payload msg of JObj fs \<Rightarrow> loose_eq_2 L (get_prop fs ''code'') | _ \<Rightarrow> False)"

definition api_error_throws :: "api_msg \<Rightarrow> bool" where
  "api_error_throws msg \<longleftrightarrow>
     am_error msg \<and> (am_payload msg = JUndefined \<or> am_payload msg = JNull)"

text \<open>
  The encryptions in a trace: the generator's secret, its counter when the key was
  generated, and the plaintext encrypted with that key. A counter is reused when two
  encryptions with the same secret and the same counter have different plaintexts.
\<close>

fun encryption :: "event \<Rightarrow> (string \<times> jsval \<times> string) list" where
  "encryption (Encrypted h plain) = [(hotp_secret h, counter h, plain)]"
| "encryption _ = []"

definition encryptions :: "event list \<Rightarrow> (string \<times> jsval \<times> string) list" where
  "encryptions t = concat (map encryption t)"

definition counter_reused :: "(string \<times> jsval \<times> string) list \<Rightarrow> bool" where
  "counter_reused us \<longleftrightarrow>
     list_ex (\<lambda>a. list_ex (\<lambda>b. fst a = fst b \<and> fst (snd a) = fst (snd b) \<and> snd (snd a) \<noteq> snd (snd b)) us) us"

section \<open>A session, step by step\<close>

text \<open>
  A run of the operations against the small library instance: a new connection, its
  \<^verbatim>\<open>connect\<close>, the \<^verbatim>\<open>connect\<close> and \<^verbatim>\<open>authenticated\<close> events of a wallet that knows
  no link, a \<^verbatim>\<open>link\<close> call, the wallet's answer, and an \<^verbatim>\<open>api\<close> request.
\<close>

definition w_init :: world where
  "w_init =
     \<lparr> conn = new_connection (JStr ''App'') (JStr ''a99'') (JStr ''Firefox'') (JStr ''localhost'') None,
       promises = [], trace = [] \<rparr>"

definition auth_unlinked :: auth_msg where
  "auth_unlinked =
     \<lparr> auth_link = False, auth_authenticate = True,
       auth_pub_key = JStr ''0b0e'', auth_requested = JUndefined \<rparr>"

definition w_connected :: world where
  "w_connected =
     on_authenticated stub_lib 0 auth_unlinked
       (on_connect None ''u-0'' (snd (connect None (Some 1) w_init)))"

definition w_link_sent :: world where
  "w_link_sent =
     snd (link_start stub_lib ''a1'' ''id-1'' ''rq-1'' (JStr ''BTS'') (JStr ''account'') w_connected)"

definition link_ok :: link_msg where
  "link_ok =
     \<lparr> lm_id = JStr ''rq-1'', lm_error = False, lm_link = True, lm_authenticate = True,
       lm_existing = False, lm_identityhash = JStr ''ih-7'', lm_chain = JStr ''BTS'',
       lm_requested = JObj [(''account'', JStr ''alice'')] \<rparr>"

definition link_rejected :: link_msg where
  "link_rejected =
     \<lparr> lm_id = JStr ''rq-1'', lm_error = True, lm_link = False, lm_authenticate = False,
       lm_existing = False, lm_identityhash = JUndefined, lm_chain = JUndefined,
       lm_requested = JUndefined \<rparr>"

definition w_linked :: world where
  "w_linked = on_link stub_lib link_ok w_link_sent"

definition w_api_sent :: world where
  "w_api_sent =
     snd (sendRequest stub_lib ''id-2'' ''api'' (JObj [(''method'', JStr ''getAccount'')]) w_linked)"

definition link_request_1 :: request where
  "link_request_1 =
     \<lparr> rq_type = ''linkRequest'', rq_id = JStr ''rq-1'',
       rq_payload =
         JObj [(''chain'', JStr ''BTS''), (''request'', JStr ''account''),
               (''pubkey'', JStr ''9ba1''), (''next_hash'', JStr ''sha256:id-1'')],
       rq_promise = 1 \<rparr>"

definition api_request_1 :: request where
  "api_request_1 =
     \<lparr> rq_type = ''api'', rq_id = JStr ''id-1'',
       rq_payload = JStr ''5ea1/id-1|method=getAccount;next_hash=sha256:id-2;'', rq_promise = 2 \<rparr>"

definition api_fatal :: api_msg where
  "api_fatal =
     \<lparr> am_id = JStr ''id-1'', am_error = True, am_encrypted = False,
       am_payload = JObj [(''code'', JNum 2), (''message'', JStr ''locked'')] \<rparr>"

definition api_answer :: api_msg where
  "api_answer =
     \<lparr> am_id = JStr ''id-1'', am_error = False, am_encrypted = True,
       am_payload = JStr ''5ea1/id-1|alice'' \<rparr>"

text \<open>A later session of the same application, which connects with the identity it stored.\<close>

definition stored_identity :: obj where
  "stored_identity =
     [(''apphash'', JStr ''a99''), (''identityhash'', JStr ''ih-7''),
      (''chain'', JStr ''BTS''), (''appName'', JStr ''App''),
      (''secret'', JStr ''5ea1''), (''next_id'', JStr ''id-1''),
      (''requested'', JObj [(''account'', JStr ''alice'')])]"

definition auth_linked :: auth_msg where
  "auth_linked =
     \<lparr> auth_link = True, auth_authenticate = True,
       auth_pub_key = JUndefined, auth_requested = JObj [(''account'', JStr ''alice'')] \<rparr>"

definition w_reconnected :: world where
  "w_reconnected =
     on_connect (Some stored_identity) ''u-1'' (snd (connect (Some stored_identity) (Some 2) w_init))"

text \<open>
  Three answers to the \<^verbatim>\<open>api\<close> request that cannot be decrypted: one encrypted under
  another key, one whose payload is no ciphertext, and that one flagged as an error.
\<close>

definition api_garbled :: api_msg where
  "api_garbled =
     \<lparr> am_id = JStr ''id-1'', am_error = False, am_encrypted = True,
       am_payload = JStr ''0000/id-1|alice'' \<rparr>"

definition api_malformed :: api_msg where
  "api_malformed =
     \<lparr> am_id = JStr ''id-1'', am_error = False, am_encrypted = True,
       am_payload = JStr ''bm90IGEgY2lwaGVydGV4dA=='' \<rparr>"

definition api_malformed_error :: api_msg where
  "api_malformed_error =
     \<lparr> am_id = JStr ''id-1'', am_error = True, am_encrypted = True,
       am_payload = JStr ''bm90IGEgY2lwaGVydGV4dA=='' \<rparr>"

text \<open>
  The linked session goes on: the wallet answers the \<^verbatim>\<open>api\<close> request, the channel
  closes, and the application connects again with the identity of the session. The
  wallet reports the link, the application calls \<^verbatim>\<open>link\<close>, the wallet accepts the
  relink, and the application sends another \<^verbatim>\<open>api\<close> request.
\<close>

definition w_api_answered :: world where
  "w_api_answered = on_api stub_lib api_answer w_api_sent"

definition w_again :: world where
  "w_again =
     on_authenticated stub_lib 3 auth_linked
       (on_connect (identity (conn w_api_answered)) ''u-1''
          (snd (connect (identity (conn w_api_answered)) (Some 2)
                  (w_api_answered\<lparr> conn := on_disconnect (conn w_api_answered) \<rparr>))))"

definition w_relink_sent :: world where
  "w_relink_sent =
     snd (link_start stub_lib ''a2'' ''id-3'' ''rq-2'' (JStr ''BTS'') (JStr ''account'') w_again)"

definition relink_ok :: link_msg where
  "relink_ok =
     \<lparr> lm_id = JStr ''rq-2'', lm_error = False, lm_link = True, lm_authenticate = True,
       lm_existing = True, lm_identityhash = JStr ''ih-7'', lm_chain = JStr ''BTS'',
       lm_requested = JObj [(''account'', JStr ''alice'')] \<rparr>"

definition w_relinked :: world where
  "w_relinked = on_link stub_lib relink_ok w_relink_sent"

definition w_second_request :: world where
  "w_second_request =
     snd (sendRequest stub_lib ''id-4'' ''api''
            (JObj [(''method'', JStr ''transfer''), (''to'', JStr ''bob'')]) w_relinked)"

definition session_identity :: obj where
  "session_identity =
     [(''apphash'', JStr ''a99''), (''identityhash'', JStr ''ih-7''),
      (''chain'', JStr ''BTS''), (''appName'', JStr ''App''),
      (''secret'', JStr ''5ea1''), (''next_id'', JStr ''id-1''),
      (''requested'', JObj [(''account'', JStr ''alice'')]),
      (''account'', JStr ''alice'')]"

definition relink_request :: request where
  "relink_request =
     \<lparr> rq_type = ''relinkRequest'', rq_id = JStr ''rq-2'',
       rq_payload =
         JObj [(''chain'', JStr ''BTS''), (''request'', JStr ''account''),
               (''next_hash'', JStr ''sha256:id-1''), (''identityhash'', JStr ''ih-7'')],
       rq_promise = 4 \<rparr>"

section \<open>Rendering numbers\<close>

lemma string_of_int_examples:
  "string_of_int 0 = ''0''" "string_of_int 42 = ''42''" "string_of_int (- 7) = ''-7''"
  by code_simp+

section \<open>Promises and the trace\<close>

lemma conn_resolve [simp]: "conn (resolve p v w) = conn w"
  by (simp add: resolve_def)

lemma conn_reject [simp]: "conn (reject p v w) = conn w"
  by (simp add: reject_def)

lemma conn_uncaught [simp]: "conn (uncaught e w) = conn w"
  by (simp add: uncaught_def)

lemma trace_resolve [simp]: "trace (resolve p v w) = trace w"
  by (simp add: resolve_def)

lemma trace_reject [simp]: "trace (reject p v w) = trace w"
  by (simp add: reject_def)

lemma trace_uncaught [simp]: "trace (uncaught e w) = trace w @ [Uncaught e]"
  by (simp add: uncaught_def)

lemma promise_of_uncaught [simp]: "promise_of (uncaught e w) q = promise_of w q"
  by (simp add: promise_of_def uncaught_def)

lemma promise_of_conn_update [simp]: "promise_of (w\<lparr> conn := c \<rparr>) q = promise_of w q"
  by (simp add: promise_of_def)

lemma promise_of_trace_update [simp]: "promise_of (w\<lparr> trace := t \<rparr>) q = promise_of w q"
  by (simp add: promise_of_def)

lemma promise_of_reject:
  "promise_of (reject p e w) q =
     (if q = p \<and> promise_of w p = Some Pending then Some (Rejected e) else promise_of w q)"
  by (auto simp: promise_of_def reject_def settle_def)

lemma promise_of_resolve:
  "promise_of (resolve p v w) q =
     (if q = p \<and> promise_of w p = Some Pending then Some (Resolved v) else promise_of w q)"
  by (auto simp: promise_of_def resolve_def settle_def)

lemma conn_push_and_emit [simp]:
  "conn (push_and_emit r w) = (conn w)\<lparr> requests := requests (conn w) @ [r] \<rparr>"
  by (simp add: push_and_emit_def)

lemma trace_push_and_emit [simp]:
  "trace (push_and_emit r w) = trace w @ [Emit (rq_type r) (rq_id r) (rq_payload r)]"
  by (simp add: push_and_emit_def)

lemma promise_of_push_and_emit [simp]: "promise_of (push_and_emit r w) q = promise_of w q"
  by (simp add: promise_of_def push_and_emit_def)

lemma promise_of_new:
  "promise_of (w\<lparr> promises := promises w @ [Pending] \<rparr>) q =
     (if q = length (promises w) then Some Pending else promise_of w q)"
  by (auto simp: promise_of_def nth_append)

section \<open>The run, evaluated\<close>

lemma is_hex_secret [simp]: "is_hex ''5ea1''"
  by (simp add: is_hex_def)

lemmas op_defs =
  new_connection_def reset_def new_promise_def fetch_ids_def sendRequest_def push_and_emit_def
  setAuth_def connect_def on_connect_def on_authenticated_def fresh_identity_def on_link_def
  api_error_def on_api_def on_disconnect_def identity_prop_def link_send_def link_start_def
  link_resume_def resolve_def reject_def settle_def uncaught_def promise_of_def
  sha256_def loose_eq_2_def stub_lib_def stub_stringify_def Let_def

lemma w_connected_eq:
  "w_connected =
     \<lparr> conn =
         \<lparr> appName = JStr ''App'', appHash = JStr ''a99'', browser = JStr ''Firefox'',
           origin = JStr ''localhost'', identity = None, conn_id = JNull,
           next_identification = JNull, connected = True, authenticated = False,
           linked = False, otp = None, requests = [], socket = Some 1,
           secret = JUndefined, beetkey = JStr ''0b0e'' \<rparr>,
       promises = [Resolved (AuthMsg auth_unlinked)],
       trace =
         [Emit ''authenticate'' (JStr ''u-0'')
            (JObj [(''origin'', JStr ''localhost''), (''appName'', JStr ''App''),
                   (''browser'', JStr ''Firefox'')])] \<rparr>"
  by (simp add: w_connected_def w_init_def auth_unlinked_def op_defs)

lemma w_link_sent_eq:
  "w_link_sent =
     \<lparr> conn =
         \<lparr> appName = JStr ''App'', appHash = JStr ''a99'', browser = JStr ''Firefox'',
           origin = JStr ''localhost'', identity = None, conn_id = JNull,
           next_identification = JStr ''id-1'', connected = True, authenticated = False,
           linked = False, otp = None, requests = [link_request_1], socket = Some 1,
           secret = JStr ''5ea1'', beetkey = JStr ''0b0e'' \<rparr>,
       promises = [Resolved (AuthMsg auth_unlinked), Pending],
       trace =
         [Emit ''authenticate'' (JStr ''u-0'')
            (JObj [(''origin'', JStr ''localhost''), (''appName'', JStr ''App''),
                   (''browser'', JStr ''Firefox'')]),
          Emit ''linkRequest'' (JStr ''rq-1'') (rq_payload link_request_1)] \<rparr>"
  by (simp add: w_link_sent_def w_connected_eq link_request_1_def op_defs)

lemma w_linked_eq:
  "w_linked =
     \<lparr> conn =
         \<lparr> appName = JStr ''App'', appHash = JStr ''a99'', browser = JStr ''Firefox'',
           origin = JStr ''localhost'',
           identity =
             Some [(''apphash'', JStr ''a99''), (''identityhash'', JStr ''ih-7''),
                   (''chain'', JStr ''BTS''), (''appName'', JStr ''App''),
                   (''secret'', JStr ''5ea1''), (''next_id'', JStr ''id-1''),
                   (''requested'', JObj [(''account'', JStr ''alice'')])],
           conn_id = JNull, next_identification = JStr ''id-1'', connected = True,
           authenticated = True, linked = True,
           otp = Some \<lparr> hotp_secret = ''5ea1'', counter = JNum 0 \<rparr>,
           requests = [link_request_1], socket = Some 1,
           secret = JStr ''5ea1'', beetkey = JStr ''0b0e'' \<rparr>,
       promises = [Resolved (AuthMsg auth_unlinked), Resolved (LinkMsg link_ok)],
       trace =
         [Emit ''authenticate'' (JStr ''u-0'')
            (JObj [(''origin'', JStr ''localhost''), (''appName'', JStr ''App''),
                   (''browser'', JStr ''Firefox'')]),
          Emit ''linkRequest'' (JStr ''rq-1'') (rq_payload link_request_1)] \<rparr>"
  by (simp add: w_linked_def w_link_sent_eq link_ok_def link_request_1_def op_defs)
lemma w_api_sent_eq:
  "w_api_sent =
     \<lparr> conn =
         \<lparr> appName = JStr ''App'', appHash = JStr ''a99'', browser = JStr ''Firefox'',
           origin = JStr ''localhost'',
           identity =
             Some [(''apphash'', JStr ''a99''), (''identityhash'', JStr ''ih-7''),
                   (''chain'', JStr ''BTS''), (''appName'', JStr ''App''),
                   (''secret'', JStr ''5ea1''), (''next_id'', JStr ''id-1''),
                   (''requested'', JObj [(''account'', JStr ''alice'')])],
           conn_id = JNull, next_identification = JStr ''id-2'', connected = True,
           authenticated = True, linked = True,
           otp = Some \<lparr> hotp_secret = ''5ea1'', counter = JStr ''id-1'' \<rparr>,
           requests = [link_request_1, api_request_1], socket = Some 1,
           secret = JStr ''5ea1'', beetkey = JStr ''0b0e'' \<rparr>,
       promises = [Resolved (AuthMsg auth_unlinked), Resolved (LinkMsg link_ok), Pending],
       trace =
         [Emit ''authenticate'' (JStr ''u-0'')
            (JObj [(''origin'', JStr ''localhost''), (''appName'', JStr ''App''),
                   (''browser'', JStr ''Firefox'')]),
          Emit ''linkRequest'' (JStr ''rq-1'') (rq_payload link_request_1),
          Encrypted \<lparr> hotp_secret = ''5ea1'', counter = JStr ''id-1'' \<rparr> ''method=getAccount;next_hash=sha256:id-2;'',
          Emit ''api'' (JStr ''id-1'') (JStr ''5ea1/id-1|method=getAccount;next_hash=sha256:id-2;'')] \<rparr>"
  by (simp add: w_api_sent_def w_linked_eq api_request_1_def op_defs)

lemma find_api_request_1:
  "find_request (requests (conn w_api_sent)) (JStr ''id-1'') = Inr (Some api_request_1)"
  by (simp add: w_api_sent_eq link_request_1_def api_request_1_def)

section \<open>A fatal error code resets the session\<close>

lemma on_api_empty_registry:
  "requests (conn w) = [] \<Longrightarrow> on_api L msg w = w"
  by (simp add: on_api_def)

lemma on_link_empty_registry:
  "requests (conn w) = [] \<Longrightarrow> on_link L linkRequest w = w"
  by (simp add: on_link_def)

text \<open>
  C4. An \<^verbatim>\<open>api\<close> response that matches a pending request and carries an error whose
  payload has \<^verbatim>\<open>code == 2\<close> resets the session: \<open>connected\<close>, \<open>authenticated\<close> and
  \<open>linked\<close> are false, the identity and the cipher are gone, and the registry is empty,
  so that no later response finds an entry and none changes anything. The future of the
  matched request, pending until then, is rejected with the error payload.
\<close>

theorem api_error_code_2_resets:
  assumes found: "find_request (requests (conn w)) (am_id msg) = Inr (Some r)"
      and err: "am_error msg"
      and payload: "am_payload msg = JObj fs"
      and code: "loose_eq_2 L (get_prop fs ''code'')"
  shows "connected (conn (on_api L msg w)) = False
       \<and> authenticated (conn (on_api L msg w)) = False
       \<and> linked (conn (on_api L msg w)) = False
       \<and> identity (conn (on_api L msg w)) = None
       \<and> otp (conn (on_api L msg w)) = None
       \<and> requests (conn (on_api L msg w)) = []
       \<and> (\<forall>i. find_request (requests (conn (on_api L msg w))) i = Inr None)
       \<and> (\<forall>msg'. on_api L msg' (on_api L msg w) = on_api L msg w)
       \<and> (\<forall>linkRequest. on_link L linkRequest (on_api L msg w) = on_api L msg w)
       \<and> (promise_of w (rq_promise r) = Some Pending \<longrightarrow>
            promise_of (on_api L msg w) (rq_promise r) = Some (Rejected (Val (am_payload msg))))"
proof -
  let ?w1 = "reject (rq_promise r) (Val (am_payload msg)) (w\<lparr> conn := reset (conn w) \<rparr>)"
  have step: "api_error L msg r w = Some ?w1"
    using err payload code by (simp add: api_error_def)
  have final: "conn (on_api L msg w) = reset (conn w)"
    using found step by (simp add: on_api_def reset_def)
  have empty: "requests (conn (on_api L msg w)) = []"
    using final by (simp add: reset_def)
  have rejected: "promise_of (on_api L msg w) (rq_promise r) = Some (Rejected (Val (am_payload msg)))"
    if "promise_of w (rq_promise r) = Some Pending"
    using found step that
    by (simp add: on_api_def reset_def promise_of_resolve promise_of_reject)
  show ?thesis
    using final empty rejected on_api_empty_registry [OF empty] on_link_empty_registry [OF empty]
    by (simp add: reset_def)
qed

theorem api_error_code_2_resets_witness:
  "find_request (requests (conn w_api_sent)) (am_id api_fatal) = Inr (Some api_request_1)
   \<and> am_error api_fatal
   \<and> loose_eq_2 stub_lib (get_prop [(''code'', JNum 2), (''message'', JStr ''locked'')] ''code'')
   \<and> linked (conn w_api_sent)
   \<and> promise_of w_api_sent 2 = Some Pending
   \<and> linked (conn (on_api stub_lib api_fatal w_api_sent)) = False
   \<and> otp (conn (on_api stub_lib api_fatal w_api_sent)) = None
   \<and> requests (conn (on_api stub_lib api_fatal w_api_sent)) = []
   \<and> promise_of (on_api stub_lib api_fatal w_api_sent) 2
       = Some (Rejected (Val (JObj [(''code'', JNum 2), (''message'', JStr ''locked'')])))"
proof -
  have found: "find_request (requests (conn w_api_sent)) (am_id api_fatal) = Inr (Some api_request_1)"
    using find_api_request_1 by (simp add: api_fatal_def)
  have err: "am_error api_fatal" by (simp add: api_fatal_def)
  have payload: "am_payload api_fatal = JObj [(''code'', JNum 2), (''message'', JStr ''locked'')]"
    by (simp add: api_fatal_def)
  have code: "loose_eq_2 stub_lib (get_prop [(''code'', JNum 2), (''message'', JStr ''locked'')] ''code'')"
    by (simp add: loose_eq_2_def)
  have pending: "promise_of w_api_sent 2 = Some Pending"
    by (simp add: w_api_sent_eq promise_of_def)
  have lk: "linked (conn w_api_sent)" by (simp add: w_api_sent_eq)
  show ?thesis
    using api_error_code_2_resets [OF found err payload code] found err code pending lk payload
    by (simp add: api_request_1_def)
qed

section \<open>Reset\<close>

text \<open>
  C10. \<open>reset\<close> sets \<open>connected\<close>, \<open>authenticated\<close> and \<open>linked\<close> to false and clears
  \<open>identity\<close>, \<open>socket\<close>, \<open>otp\<close> and the list of pending requests; every other field
  of the connection keeps its value, in particular the top-level \<open>secret\<close>,
  \<open>next_identification\<close> and \<open>beetkey\<close>.
\<close>

theorem reset_frame:
  "connected (reset c) = False \<and> authenticated (reset c) = False \<and> linked (reset c) = False
   \<and> identity (reset c) = None \<and> socket (reset c) = None \<and> otp (reset c) = None
   \<and> requests (reset c) = []
   \<and> secret (reset c) = secret c
   \<and> next_identification (reset c) = next_identification c
   \<and> beetkey (reset c) = beetkey c
   \<and> appName (reset c) = appName c \<and> appHash (reset c) = appHash c
   \<and> browser (reset c) = browser c \<and> origin (reset c) = origin c
   \<and> conn_id (reset c) = conn_id c"
  by (simp add: reset_def)

section \<open>Responses and the registry\<close>

lemma on_link_requests: "requests (conn (on_link L linkRequest w)) = requests (conn w)"
  by (simp add: on_link_def Let_def split: sum.splits option.splits)

lemma api_error_conn:
  "api_error L msg r w = Some w1 \<Longrightarrow>
   conn w1 = (if api_resets L msg then reset (conn w) else conn w)"
  by (auto simp: api_error_def api_resets_def split: if_splits jsval.splits)

lemma api_error_trace: "api_error L msg r w = Some w1 \<Longrightarrow> trace w1 = trace w"
  by (auto simp: api_error_def split: if_splits jsval.splits)

lemma on_api_requests:
  "\<not> api_resets L msg \<Longrightarrow> requests (conn (on_api L msg w)) = requests (conn w)"
  by (auto simp: on_api_def Let_def dest!: api_error_conn
           split: sum.splits option.splits prod.splits)

lemma on_api_requests_cases:
  "requests (conn (on_api L msg w)) = requests (conn w) \<or> requests (conn (on_api L msg w)) = []"
  by (auto simp: on_api_def Let_def reset_def dest!: api_error_conn
           split: sum.splits option.splits prod.splits if_splits)

lemma on_link_settled:
  "promise_of w q = Some s \<Longrightarrow> s \<noteq> Pending \<Longrightarrow> promise_of (on_link L linkRequest w) q = Some s"
  by (auto simp: on_link_def Let_def promise_of_resolve promise_of_reject
           split: sum.splits option.splits)

lemma api_error_settled:
  "api_error L msg r w = Some w1 \<Longrightarrow> promise_of w q = Some s \<Longrightarrow> s \<noteq> Pending \<Longrightarrow>
   promise_of w1 q = Some s"
  by (auto simp: api_error_def promise_of_reject split: if_splits jsval.splits)

lemma on_api_settled:
  "promise_of w q = Some s \<Longrightarrow> s \<noteq> Pending \<Longrightarrow> promise_of (on_api L msg w) q = Some s"
  by (auto simp: on_api_def Let_def promise_of_resolve promise_of_reject
           dest: api_error_settled
           split: sum.splits option.splits prod.splits)

text \<open>
  C1, as the code has it. Handling a \<^verbatim>\<open>link\<close> or \<^verbatim>\<open>api\<close> response does not remove the
  matched entry: both handlers leave the registry as it was, except that an \<^verbatim>\<open>api\<close>
  error with \<^verbatim>\<open>code == 2\<close> empties the whole registry through \<open>reset\<close>. A second
  response with the same id therefore finds the same entry again. It does not change the
  outcome of a future that has settled.
\<close>

theorem responses_keep_registry:
  "requests (conn (on_link L linkRequest w)) = requests (conn w)
   \<and> find_request (requests (conn (on_link L linkRequest w))) (lm_id linkRequest)
       = find_request (requests (conn w)) (lm_id linkRequest)
   \<and> (requests (conn (on_api L msg w)) = requests (conn w) \<or> requests (conn (on_api L msg w)) = [])
   \<and> (\<not> api_resets L msg \<longrightarrow>
         requests (conn (on_api L msg w)) = requests (conn w)
         \<and> find_request (requests (conn (on_api L msg w))) (am_id msg)
             = find_request (requests (conn w)) (am_id msg))
   \<and> (\<forall>q s. promise_of w q = Some s \<and> s \<noteq> Pending \<longrightarrow>
         promise_of (on_link L linkRequest w) q = Some s
         \<and> promise_of (on_api L msg w) q = Some s)"
  using on_link_requests [of L linkRequest w] on_api_requests [of L msg w]
        on_api_requests_cases [of L msg w] on_link_settled [of w _ _ L linkRequest]
        on_api_settled [of w _ _ L msg]
  by simp

text \<open>
  In the run: the wallet's answer to the link request is handled, and a second
  \<^verbatim>\<open>link\<close> message with the same id, now an error, still finds the entry; the future
  stays resolved. The same for the answer to the \<^verbatim>\<open>api\<close> request.
\<close>

theorem responses_keep_registry_witness:
  "\<not> api_resets stub_lib api_answer
   \<and> promise_of w_linked 1 = Some (Resolved (LinkMsg link_ok))
   \<and> find_request (requests (conn (on_link stub_lib link_rejected w_linked))) (lm_id link_rejected)
       = Inr (Some link_request_1)
   \<and> promise_of (on_link stub_lib link_rejected w_linked) 1 = Some (Resolved (LinkMsg link_ok))
   \<and> requests (conn (on_api stub_lib api_answer w_api_sent)) = [link_request_1, api_request_1]
   \<and> find_request (requests (conn (on_api stub_lib api_answer w_api_sent))) (am_id api_answer)
       = Inr (Some api_request_1)"
proof -
  have nr: "\<not> api_resets stub_lib api_answer"
    by (simp add: api_resets_def api_answer_def)
  have p1: "promise_of w_linked 1 = Some (Resolved (LinkMsg link_ok))"
    by (simp add: w_linked_eq promise_of_def)
  have f1: "find_request (requests (conn w_linked)) (lm_id link_rejected) = Inr (Some link_request_1)"
    by (simp add: w_linked_eq link_rejected_def link_request_1_def)
  have f2: "find_request (requests (conn w_api_sent)) (am_id api_answer) = Inr (Some api_request_1)"
    using find_api_request_1 by (simp add: api_answer_def)
  have r2: "requests (conn w_api_sent) = [link_request_1, api_request_1]"
    by (simp add: w_api_sent_eq)
  show ?thesis
    using responses_keep_registry [of stub_lib link_rejected w_linked api_answer] nr p1 f1
          responses_keep_registry [of stub_lib link_ok w_api_sent api_answer] f2 r2
    by simp
qed

text \<open>
  The claim as stated fails: after the answer to the link request has been handled, a
  response with the same id finds the entry; likewise for the \<^verbatim>\<open>api\<close> request.
\<close>

theorem matched_entry_removed_counterexample:
  "find_request (requests (conn w_link_sent)) (lm_id link_ok) = Inr (Some link_request_1)
   \<and> find_request (requests (conn (on_link stub_lib link_ok w_link_sent))) (lm_id link_ok)
       = Inr (Some link_request_1)
   \<and> find_request (requests (conn w_api_sent)) (am_id api_answer) = Inr (Some api_request_1)
   \<and> find_request (requests (conn (on_api stub_lib api_answer w_api_sent))) (am_id api_answer)
       = Inr (Some api_request_1)"
proof -
  have a: "on_link stub_lib link_ok w_link_sent = w_linked"
    by (simp add: w_linked_def)
  have b: "requests (conn (on_api stub_lib api_answer w_api_sent)) = requests (conn w_api_sent)"
    by (rule on_api_requests) (simp add: api_resets_def api_answer_def)
  show ?thesis
    unfolding a b
    by (simp add: w_link_sent_eq w_linked_eq w_api_sent_eq link_ok_def api_answer_def
                  link_request_1_def api_request_1_def)
qed

section \<open>The session invariant\<close>

lemma session_inv_reset: "session_inv (reset c)"
  by (simp add: session_inv_def reset_def)

lemma session_inv_connect:
  "session_inv (conn w) \<Longrightarrow> session_inv (conn (snd (connect identity' sock w)))"
  by (auto simp: connect_def new_promise_def Let_def session_inv_def reset_def
           split: option.splits)

lemma session_inv_on_connect:
  "session_inv (conn w) \<Longrightarrow> session_inv (conn (on_connect identity' uuid w))"
  by (auto simp: on_connect_def Let_def session_inv_def)

text \<open>
  \<^verbatim>\<open>sendRequest\<close> leaves the three flags alone and never clears or creates the cipher.
\<close>

lemma sendRequest_flags:
  "connected (conn (snd (sendRequest L uuid type payload w))) = connected (conn w)
   \<and> authenticated (conn (snd (sendRequest L uuid type payload w))) = authenticated (conn w)
   \<and> linked (conn (snd (sendRequest L uuid type payload w))) = linked (conn w)
   \<and> (otp (conn (snd (sendRequest L uuid type payload w))) = None) = (otp (conn w) = None)
   \<and> identity (conn (snd (sendRequest L uuid type payload w))) = identity (conn w)
   \<and> secret (conn (snd (sendRequest L uuid type payload w))) = secret (conn w)"
  by (auto simp: sendRequest_def new_promise_def fetch_ids_def Let_def
           split: sum.splits option.splits prod.splits jsval.splits if_splits)

lemma session_inv_sendRequest:
  "session_inv (conn w) \<Longrightarrow> session_inv (conn (snd (sendRequest L uuid type payload w)))"
  using sendRequest_flags [of L uuid type payload w] by (simp add: session_inv_def)

lemma session_inv_on_api:
  "session_inv (conn w) \<Longrightarrow> session_inv (conn (on_api L msg w))"
  by (auto simp: on_api_def Let_def session_inv_def reset_def dest!: api_error_conn
           split: sum.splits option.splits prod.splits if_splits)

lemma snd_awaiting [simp]: "snd (case x of (p, w1) \<Rightarrow> (LinkAwaiting p, w1)) = snd x"
  by (cases x) simp

lemma fst_awaiting [simp]:
  "fst (case x of (p, w1) \<Rightarrow> (LinkAwaiting p, w1)) = LinkAwaiting (fst x)"
  by (cases x) simp

lemma link_send_flags:
  "connected (conn (snd (link_send L uuid2 linkObj next_id w))) = connected (conn w)
   \<and> authenticated (conn (snd (link_send L uuid2 linkObj next_id w))) = authenticated (conn w)
   \<and> linked (conn (snd (link_send L uuid2 linkObj next_id w))) = linked (conn w)
   \<and> (otp (conn (snd (link_send L uuid2 linkObj next_id w))) = None) = (otp (conn w) = None)
   \<and> identity (conn (snd (link_send L uuid2 linkObj next_id w))) = identity (conn w)
   \<and> secret (conn (snd (link_send L uuid2 linkObj next_id w))) = secret (conn w)"
  by (simp add: link_send_def Let_def sendRequest_flags split: option.splits)

lemma link_start_flags:
  "connected (conn (snd (link_start L privk uuid1 uuid2 chain rd w))) = connected (conn w)
   \<and> authenticated (conn (snd (link_start L privk uuid1 uuid2 chain rd w))) = authenticated (conn w)
   \<and> linked (conn (snd (link_start L privk uuid1 uuid2 chain rd w))) = linked (conn w)
   \<and> (otp (conn (snd (link_start L privk uuid1 uuid2 chain rd w))) = None) = (otp (conn w) = None)
   \<and> identity (conn (snd (link_start L privk uuid1 uuid2 chain rd w))) = identity (conn w)"
  by (simp add: link_start_def Let_def link_send_flags split: option.splits)

lemma session_inv_link_start:
  "session_inv (conn w) \<Longrightarrow>
   session_inv (conn (snd (link_start L privk uuid1 uuid2 chain rd w)))"
  using link_start_flags [of L privk uuid1 uuid2 chain rd w] by (simp add: session_inv_def)

lemma session_inv_link_resume:
  "session_inv (conn w) \<Longrightarrow> session_inv (conn (snd (link_resume p w)))"
  by (auto simp: link_resume_def session_inv_def split: option.splits settled.splits)

lemma session_inv_setAuth:
  "session_inv (setAuth t c) \<longleftrightarrow>
     (auth_link t \<longrightarrow> auth_authenticate t) \<and> (auth_authenticate t \<longrightarrow> connected c)
     \<and> (otp c \<noteq> None \<longrightarrow> auth_link t)"
  by (auto simp: setAuth_def Let_def session_inv_def)

lemma session_inv_on_authenticated:
  "session_inv (conn w) \<Longrightarrow>
   session_inv (conn (on_authenticated L p auth w)) \<longleftrightarrow>
     (auth_link auth \<and> cipher_from_identity L (conn w) \<noteq> None \<longrightarrow> linked (conn w))"
  by (auto simp: on_authenticated_def cipher_from_identity_def Let_def session_inv_def
           split: option.splits)

lemma session_inv_on_link:
  "session_inv (conn w) \<Longrightarrow> \<not> lm_error linkRequest \<Longrightarrow> lm_link linkRequest \<Longrightarrow>
   lm_authenticate linkRequest \<Longrightarrow> connected (conn w) \<Longrightarrow>
   session_inv (conn (on_link L linkRequest w))"
  by (auto simp: on_link_def Let_def session_inv_def split: sum.splits option.splits)

lemma session_inv_on_disconnect:
  "session_inv c \<Longrightarrow> session_inv (on_disconnect c) \<longleftrightarrow> \<not> authenticated c"
  by (auto simp: on_disconnect_def session_inv_def)

text \<open>
  C2, as the code has it. \<open>reset\<close> establishes the invariant. \<^verbatim>\<open>connect\<close>, the
  \<^verbatim>\<open>connect\<close> event, \<^verbatim>\<open>sendRequest\<close>, the \<^verbatim>\<open>api\<close> event and \<^verbatim>\<open>link\<close> itself (up to its
  \<^verbatim>\<open>await\<close> and after it) preserve it. For the other operations, started in a session
  that satisfies the invariant:
  \<^item> \<^verbatim>\<open>setAuth\<close> copies the two flags from the token; the invariant holds afterwards
    exactly when the token's \<^verbatim>\<open>link\<close> implies its \<^verbatim>\<open>authenticate\<close>, its
    \<^verbatim>\<open>authenticate\<close> implies that the session is connected, and a cipher is present only
    if the token says \<^verbatim>\<open>link\<close>;
  \<^item> the \<^verbatim>\<open>authenticated\<close> event creates the cipher without touching \<open>linked\<close>; the
    invariant holds afterwards exactly when the handler creates no cipher (the message
    reports no link, or reading and decoding \<^verbatim>\<open>this.identity.secret\<close> throws) or the
    session is linked already;
  \<^item> the \<^verbatim>\<open>disconnect\<close> event clears \<open>connected\<close> alone among the flags; the invariant
    holds afterwards exactly when the session was not authenticated;
  \<^item> the \<^verbatim>\<open>link\<close> event preserves the invariant when the response carries no error and
    reports \<^verbatim>\<open>link\<close> and \<^verbatim>\<open>authenticate\<close> on a connected session.
\<close>

theorem session_invariant_preserved:
  assumes inv: "session_inv (conn w)"
  shows "session_inv (reset (conn w))
       \<and> session_inv (conn (snd (connect identity' sock w)))
       \<and> session_inv (conn (on_connect identity' uuid w))
       \<and> session_inv (conn (snd (sendRequest L uuid type payload w)))
       \<and> session_inv (conn (on_api L msg w))
       \<and> session_inv (conn (snd (link_start L privk uuid1 uuid2 chain requestDetails w)))
       \<and> session_inv (conn (snd (link_resume p w)))
       \<and> (session_inv (setAuth authToken (conn w)) \<longleftrightarrow>
            (auth_link authToken \<longrightarrow> auth_authenticate authToken)
            \<and> (auth_authenticate authToken \<longrightarrow> connected (conn w))
            \<and> (otp (conn w) \<noteq> None \<longrightarrow> auth_link authToken))
       \<and> (session_inv (conn (on_authenticated L p auth w)) \<longleftrightarrow>
            (auth_link auth \<and> cipher_from_identity L (conn w) \<noteq> None \<longrightarrow> linked (conn w)))
       \<and> (session_inv (on_disconnect (conn w)) \<longleftrightarrow> \<not> authenticated (conn w))
       \<and> (\<not> lm_error linkRequest \<and> lm_link linkRequest \<and> lm_authenticate linkRequest
            \<and> connected (conn w)
           \<longrightarrow> session_inv (conn (on_link L linkRequest w)))"
proof (intro conjI)
  show "session_inv (reset (conn w))"
    by (rule session_inv_reset)
  show "session_inv (conn (snd (connect identity' sock w)))"
    using inv by (rule session_inv_connect)
  show "session_inv (conn (on_connect identity' uuid w))"
    using inv by (rule session_inv_on_connect)
  show "session_inv (conn (snd (sendRequest L uuid type payload w)))"
    using inv by (rule session_inv_sendRequest)
  show "session_inv (conn (on_api L msg w))"
    using inv by (rule session_inv_on_api)
  show "session_inv (conn (snd (link_start L privk uuid1 uuid2 chain requestDetails w)))"
    using inv by (rule session_inv_link_start)
  show "session_inv (conn (snd (link_resume p w)))"
    using inv by (rule session_inv_link_resume)
  show "session_inv (setAuth authToken (conn w)) \<longleftrightarrow>
            (auth_link authToken \<longrightarrow> auth_authenticate authToken)
            \<and> (auth_authenticate authToken \<longrightarrow> connected (conn w))
            \<and> (otp (conn w) \<noteq> None \<longrightarrow> auth_link authToken)"
    by (rule session_inv_setAuth)
  show "session_inv (conn (on_authenticated L p auth w)) \<longleftrightarrow>
            (auth_link auth \<and> cipher_from_identity L (conn w) \<noteq> None \<longrightarrow> linked (conn w))"
    using inv by (rule session_inv_on_authenticated)
  show "session_inv (on_disconnect (conn w)) \<longleftrightarrow> \<not> authenticated (conn w)"
    using inv by (rule session_inv_on_disconnect)
  show "\<not> lm_error linkRequest \<and> lm_link linkRequest \<and> lm_authenticate linkRequest
            \<and> connected (conn w)
           \<longrightarrow> session_inv (conn (on_link L linkRequest w))"
    using inv by (auto intro: session_inv_on_link)
qed

lemma w_reconnected_eq:
  "w_reconnected =
     \<lparr> conn =
         \<lparr> appName = JStr ''App'', appHash = JStr ''a99'', browser = JStr ''Firefox'',
           origin = JStr ''localhost'', identity = Some stored_identity, conn_id = JNull,
           next_identification = JNull, connected = True, authenticated = False,
           linked = False, otp = None, requests = [], socket = Some 2,
           secret = JUndefined, beetkey = JUndefined \<rparr>,
       promises = [Pending],
       trace =
         [Emit ''authenticate'' (JStr ''u-1'')
            (JObj [(''origin'', JStr ''localhost''), (''appName'', JStr ''App''),
                   (''browser'', JStr ''Firefox''), (''identityhash'', JStr ''ih-7'')])] \<rparr>"
  by (simp add: w_reconnected_def w_init_def stored_identity_def op_defs)

text \<open>
  In the run: the linked session satisfies the invariant with all three flags set and
  a cipher present. Its \<^verbatim>\<open>api\<close> request, the wallet's answer to it, a fatal error, a
  second \<^verbatim>\<open>link\<close> call, \<^verbatim>\<open>setAuth\<close> with a token that reports the link and an
  \<^verbatim>\<open>authenticated\<close> event that reports it keep the invariant; its \<^verbatim>\<open>disconnect\<close> event
  does not. Before, the wallet's answer to the link request takes the connected session
  to the linked one.
\<close>

theorem session_invariant_preserved_witness:
  "session_inv (conn w_linked)
   \<and> linked (conn w_linked) \<and> authenticated (conn w_linked) \<and> connected (conn w_linked)
   \<and> otp (conn w_linked) \<noteq> None
   \<and> cipher_from_identity stub_lib (conn w_linked) = Some ''5ea1''
   \<and> snd (sendRequest stub_lib ''id-2'' ''api'' (JObj [(''method'', JStr ''getAccount'')]) w_linked)
       = w_api_sent
   \<and> requests (conn w_api_sent) = [link_request_1, api_request_1]
   \<and> session_inv (conn w_api_sent)
   \<and> session_inv (conn (on_api stub_lib api_answer w_api_sent))
   \<and> session_inv (conn (on_api stub_lib api_fatal w_api_sent))
   \<and> \<not> linked (conn (on_api stub_lib api_fatal w_api_sent))
   \<and> session_inv (conn (snd (link_start stub_lib ''a2'' ''id-3'' ''rq-2'' (JStr ''BTS'')
                                 (JStr ''account'') w_linked)))
   \<and> session_inv (setAuth auth_linked (conn w_linked))
   \<and> session_inv (conn (on_authenticated stub_lib 0 auth_linked w_linked))
   \<and> \<not> session_inv (on_disconnect (conn w_linked))
   \<and> session_inv (conn w_link_sent) \<and> connected (conn w_link_sent)
   \<and> \<not> lm_error link_ok \<and> lm_link link_ok \<and> lm_authenticate link_ok
   \<and> session_inv (conn (on_link stub_lib link_ok w_link_sent))
   \<and> linked (conn (on_link stub_lib link_ok w_link_sent))
   \<and> session_inv (on_disconnect (conn w_link_sent))"
proof -
  have inv_linked: "session_inv (conn w_linked)"
    by (simp add: session_inv_def w_linked_eq)
  have inv_sent: "session_inv (conn w_api_sent)"
    by (simp add: session_inv_def w_api_sent_eq)
  have inv_waiting: "session_inv (conn w_link_sent)"
    by (simp add: session_inv_def w_link_sent_eq)
  have state: "linked (conn w_linked)" "authenticated (conn w_linked)" "connected (conn w_linked)"
              "otp (conn w_linked) \<noteq> None"
              "cipher_from_identity stub_lib (conn w_linked) = Some ''5ea1''"
    by (simp_all add: w_linked_eq cipher_from_identity_def stub_lib_def)
  have token: "auth_link auth_linked" "auth_authenticate auth_linked"
    by (simp_all add: auth_linked_def)
  have waiting: "connected (conn w_link_sent)" "\<not> authenticated (conn w_link_sent)"
    by (simp_all add: w_link_sent_eq)
  have answer: "\<not> lm_error link_ok" "lm_link link_ok" "lm_authenticate link_ok"
    by (simp_all add: link_ok_def)
  have sent: "snd (sendRequest stub_lib ''id-2'' ''api'' (JObj [(''method'', JStr ''getAccount'')]) w_linked)
              = w_api_sent"
    by (simp add: w_api_sent_def)
  have registered: "requests (conn w_api_sent) = [link_request_1, api_request_1]"
    by (simp add: w_api_sent_eq)
  have now_linked: "linked (conn (on_link stub_lib link_ok w_link_sent))"
    using w_linked_def state(1) by simp
  have fatal: "\<not> linked (conn (on_api stub_lib api_fatal w_api_sent))"
    by (simp add: w_api_sent_eq api_fatal_def link_request_1_def api_request_1_def op_defs)
  note at_linked =
    session_invariant_preserved [OF inv_linked, where L = stub_lib and uuid = "''id-2''"
      and type = "''api''" and payload = "JObj [(''method'', JStr ''getAccount'')]"
      and privk = "''a2''" and ?uuid1.0 = "''id-3''" and ?uuid2.0 = "''rq-2''"
      and chain = "JStr ''BTS''" and requestDetails = "JStr ''account''"
      and authToken = auth_linked and auth = auth_linked and p = 0]
  note at_sent_answer = session_invariant_preserved [OF inv_sent, where L = stub_lib and msg = api_answer]
  note at_sent_fatal = session_invariant_preserved [OF inv_sent, where L = stub_lib and msg = api_fatal]
  note at_waiting =
    session_invariant_preserved [OF inv_waiting, where L = stub_lib and linkRequest = link_ok]
  show ?thesis
    using at_linked at_sent_answer at_sent_fatal at_waiting
          inv_linked inv_sent inv_waiting state token waiting answer now_linked fatal registered
    by (simp add: sent)
qed

text \<open>
  The claim as stated fails for four operations, each started in a session that
  satisfies the invariant: \<^verbatim>\<open>setAuth\<close> on a connection that is not connected, the
  \<^verbatim>\<open>authenticated\<close> event that reports an existing link, the \<^verbatim>\<open>link\<close> event that
  carries an error, and the \<^verbatim>\<open>disconnect\<close> event of a linked session.
\<close>

theorem session_invariant_counterexample:
  "session_inv (conn w_init) \<and> \<not> session_inv (setAuth auth_unlinked (conn w_init))
   \<and> session_inv (conn w_reconnected)
   \<and> \<not> session_inv (conn (on_authenticated stub_lib 0 auth_linked w_reconnected))
   \<and> session_inv (conn w_link_sent)
   \<and> \<not> session_inv (conn (on_link stub_lib link_rejected w_link_sent))
   \<and> session_inv (conn w_linked) \<and> \<not> session_inv (on_disconnect (conn w_linked))"
proof -
  have a: "session_inv (conn w_init) \<and> \<not> session_inv (setAuth auth_unlinked (conn w_init))"
    by (simp add: session_inv_def w_init_def auth_unlinked_def new_connection_def setAuth_def)
  have b: "session_inv (conn w_reconnected)
           \<and> \<not> session_inv (conn (on_authenticated stub_lib 0 auth_linked w_reconnected))"
    by (simp add: session_inv_def w_reconnected_eq auth_linked_def stored_identity_def
                  on_authenticated_def stub_lib_def resolve_def)
  have c: "session_inv (conn w_link_sent)
           \<and> \<not> session_inv (conn (on_link stub_lib link_rejected w_link_sent))"
    by (simp add: session_inv_def w_link_sent_eq link_rejected_def link_request_1_def
                  on_link_def stub_lib_def Let_def)
  have d: "session_inv (conn w_linked) \<and> \<not> session_inv (on_disconnect (conn w_linked))"
    by (simp add: session_inv_def w_linked_eq on_disconnect_def)
  show ?thesis using a b c d by simp
qed

section \<open>A rejected link attempt\<close>

text \<open>
  C3 on the code. When the \<^verbatim>\<open>link\<close> response that matches the pending link request
  carries an error, the handler rejects the future and then goes on as for a success:
  it creates the cipher from \<^verbatim>\<open>this.secret\<close>. \<^verbatim>\<open>link\<close> catches the rejection, sets the
  identity to \<^verbatim>\<open>null\<close> and returns \<^verbatim>\<open>undefined\<close>, and the cipher stays. So the
  identity is cleared and \<^verbatim>\<open>link\<close> returns failure, but a cipher is established by the
  rejected attempt.
\<close>

theorem rejected_link_establishes_cipher:
  assumes found: "find_request (requests (conn w)) (lm_id linkRequest) = Inr (Some r)"
      and err: "lm_error linkRequest"
      and pending: "promise_of w (rq_promise r) = Some Pending"
      and hex: "secret_fromHex L (secret (conn w)) = Some s"
  shows "promise_of (on_link L linkRequest w) (rq_promise r) = Some (Rejected (LinkMsg linkRequest))
       \<and> fst (link_resume (rq_promise r) (on_link L linkRequest w)) = LinkReturned (Val JUndefined)
       \<and> identity (conn (snd (link_resume (rq_promise r) (on_link L linkRequest w)))) = None
       \<and> otp (conn (snd (link_resume (rq_promise r) (on_link L linkRequest w))))
           = Some \<lparr> hotp_secret = s, counter = JNum 0 \<rparr>"
proof -
  have rejected:
    "promise_of (on_link L linkRequest w) (rq_promise r) = Some (Rejected (LinkMsg linkRequest))"
    using found err pending hex
    by (simp add: on_link_def Let_def promise_of_resolve promise_of_reject)
  have cipher: "otp (conn (on_link L linkRequest w)) = Some \<lparr> hotp_secret = s, counter = JNum 0 \<rparr>"
    using found err hex by (simp add: on_link_def Let_def)
  show ?thesis
    using rejected cipher by (simp add: link_resume_def)
qed

text \<open>
  In the run: no cipher exists while the link request is pending; the wallet rejects
  the request; afterwards the cipher is there, seeded with the secret of that attempt.
\<close>

theorem rejected_link_establishes_cipher_witness:
  "find_request (requests (conn w_link_sent)) (lm_id link_rejected) = Inr (Some link_request_1)
   \<and> lm_error link_rejected
   \<and> promise_of w_link_sent 1 = Some Pending
   \<and> secret_fromHex stub_lib (secret (conn w_link_sent)) = Some ''5ea1''
   \<and> otp (conn w_link_sent) = None
   \<and> promise_of (on_link stub_lib link_rejected w_link_sent) 1 = Some (Rejected (LinkMsg link_rejected))
   \<and> fst (link_resume 1 (on_link stub_lib link_rejected w_link_sent)) = LinkReturned (Val JUndefined)
   \<and> identity (conn (snd (link_resume 1 (on_link stub_lib link_rejected w_link_sent)))) = None
   \<and> otp (conn (snd (link_resume 1 (on_link stub_lib link_rejected w_link_sent))))
       = Some \<lparr> hotp_secret = ''5ea1'', counter = JNum 0 \<rparr>"
proof -
  have found:
    "find_request (requests (conn w_link_sent)) (lm_id link_rejected) = Inr (Some link_request_1)"
    by (simp add: w_link_sent_eq link_rejected_def link_request_1_def)
  have err: "lm_error link_rejected"
    by (simp add: link_rejected_def)
  have pending: "promise_of w_link_sent (rq_promise link_request_1) = Some Pending"
    by (simp add: w_link_sent_eq link_request_1_def promise_of_def)
  have hex: "secret_fromHex stub_lib (secret (conn w_link_sent)) = Some ''5ea1''"
    by (simp add: w_link_sent_eq stub_lib_def)
  have none: "otp (conn w_link_sent) = None"
    by (simp add: w_link_sent_eq)
  have p: "rq_promise link_request_1 = 1"
    by (simp add: link_request_1_def)
  show ?thesis
    using rejected_link_establishes_cipher [OF found err pending hex] found err pending hex none
    unfolding p by simp
qed

section \<open>sendRequest without a channel, and before linking\<close>

text \<open>
  C9 on the code. Without a channel the returned future is rejected with the
  not-connected error, nothing is emitted and nothing is registered. An \<^verbatim>\<open>api\<close> call
  on a channel before the session is authenticated and linked emits and registers
  nothing either, but its future is not rejected: \<^verbatim>\<open>fetch_ids\<close> throws inside the
  \<^verbatim>\<open>async\<close> executor of the promise, the exception is caught by nobody, and the future
  that the caller holds stays pending.
\<close>

theorem sendRequest_failures:
  "(\<not> connected (conn w) \<or> socket (conn w) = None \<longrightarrow>
      fst (sendRequest L uuid type payload w) = length (promises w)
      \<and> promise_of (snd (sendRequest L uuid type payload w)) (length (promises w))
          = Some (Rejected (Val (JStr ''No beeteos ws connection.'')))
      \<and> trace (snd (sendRequest L uuid type payload w)) = trace w
      \<and> conn (snd (sendRequest L uuid type payload w)) = conn w)
   \<and> (connected (conn w) \<and> socket (conn w) \<noteq> None
        \<and> \<not> (authenticated (conn w) \<and> linked (conn w)) \<longrightarrow>
      fst (sendRequest L uuid ''api'' payload w) = length (promises w)
      \<and> promise_of (snd (sendRequest L uuid ''api'' payload w)) (length (promises w))
          = Some Pending
      \<and> trace (snd (sendRequest L uuid ''api'' payload w))
          = trace w @ [Uncaught ''You must be connected, authorised and linked.'']
      \<and> conn (snd (sendRequest L uuid ''api'' payload w)) = conn w)"
proof (rule conjI; rule impI)
  assume "\<not> connected (conn w) \<or> socket (conn w) = None"
  then show "fst (sendRequest L uuid type payload w) = length (promises w)
      \<and> promise_of (snd (sendRequest L uuid type payload w)) (length (promises w))
          = Some (Rejected (Val (JStr ''No beeteos ws connection.'')))
      \<and> trace (snd (sendRequest L uuid type payload w)) = trace w
      \<and> conn (snd (sendRequest L uuid type payload w)) = conn w"
    by (auto simp: sendRequest_def new_promise_def promise_of_reject promise_of_new)
next
  assume "connected (conn w) \<and> socket (conn w) \<noteq> None
          \<and> \<not> (authenticated (conn w) \<and> linked (conn w))"
  then show "fst (sendRequest L uuid ''api'' payload w) = length (promises w)
      \<and> promise_of (snd (sendRequest L uuid ''api'' payload w)) (length (promises w))
          = Some Pending
      \<and> trace (snd (sendRequest L uuid ''api'' payload w))
          = trace w @ [Uncaught ''You must be connected, authorised and linked.'']
      \<and> conn (snd (sendRequest L uuid ''api'' payload w)) = conn w"
    by (auto simp: sendRequest_def new_promise_def fetch_ids_def promise_of_new)
qed

text \<open>
  In the run: a request on the new connection, which has no channel, is rejected; an
  \<^verbatim>\<open>api\<close> request on the connected session that has not linked leaves its future
  pending.
\<close>

theorem sendRequest_failures_witness:
  "\<not> connected (conn w_init)
   \<and> promise_of (snd (sendRequest stub_lib ''id-9'' ''api'' (JObj [(''method'', JStr ''getAccount'')]) w_init)) 0
       = Some (Rejected (Val (JStr ''No beeteos ws connection.'')))
   \<and> connected (conn w_connected) \<and> socket (conn w_connected) = Some 1
   \<and> \<not> linked (conn w_connected)
   \<and> fst (sendRequest stub_lib ''id-9'' ''api'' (JObj [(''method'', JStr ''getAccount'')]) w_connected) = 1
   \<and> promise_of (snd (sendRequest stub_lib ''id-9'' ''api'' (JObj [(''method'', JStr ''getAccount'')]) w_connected)) 1
       = Some Pending
   \<and> requests (conn (snd (sendRequest stub_lib ''id-9'' ''api'' (JObj [(''method'', JStr ''getAccount'')]) w_connected)))
       = []"
proof -
  have a: "\<not> connected (conn w_init)" "length (promises w_init) = 0"
    by (simp_all add: w_init_def new_connection_def)
  have b: "connected (conn w_connected)" "socket (conn w_connected) = Some 1"
          "\<not> linked (conn w_connected)" "length (promises w_connected) = 1"
          "requests (conn w_connected) = []"
    by (simp_all add: w_connected_eq)
  show ?thesis
    using sendRequest_failures [of w_init stub_lib "''id-9''" "''api''"
                                   "JObj [(''method'', JStr ''getAccount'')]"]
          sendRequest_failures [of w_connected stub_lib "''id-9''" "''api''"
                                   "JObj [(''method'', JStr ''getAccount'')]"]
          a b
    by simp
qed

section \<open>A response that cannot be decrypted\<close>

text \<open>
  An encrypted \<^verbatim>\<open>api\<close> response that matches an entry and meets a cipher, when the
  error branch neither resets the session nor throws.
\<close>

lemma on_api_encrypted_unfold:
  assumes found: "find_request (requests (conn w)) (am_id msg) = Inr (Some r)"
      and enc: "am_encrypted msg"
      and nr: "\<not> api_resets L msg" and nt: "\<not> api_error_throws msg"
      and cipher: "otp (conn w) = Some o0"
      and key: "hotp_generate L (o0\<lparr> counter := am_id msg \<rparr>) = (key, o2)"
  shows "on_api L msg w
         = (let w1 = (if am_error msg then reject (rq_promise r) (Val (am_payload msg)) w else w);
                w2 = w1\<lparr> conn := (conn w)\<lparr> otp := Some o2 \<rparr>,
                         trace := trace w @ [Decrypted (o0\<lparr> counter := am_id msg \<rparr>) (am_payload msg)] \<rparr>
            in case aes_decrypt L (am_payload msg) key of
                 Inl error \<Rightarrow> resolve (rq_promise r) (Val JUndefined)
                                (reject (rq_promise r) (Exn error) w2)
               | Inr decryptedValue \<Rightarrow> resolve (rq_promise r) (Val (JStr decryptedValue)) w2)"
proof -
  have step: "api_error L msg r w
              = Some (if am_error msg then reject (rq_promise r) (Val (am_payload msg)) w else w)"
    using nr nt
    by (cases "am_payload msg") (auto simp: api_error_def api_resets_def api_error_throws_def)
  show ?thesis
    using found enc cipher key
    by (simp add: on_api_def step Let_def split: sum.splits)
qed

text \<open>
  C8, as the code has it. An encrypted \<^verbatim>\<open>api\<close> response matches a pending request and
  is decrypted (the session has a cipher, and the response is not an error that resets
  the session). Whatever the decryption does, \<open>linked\<close> and the other flags, the
  identity and the socket keep their values, the cipher is still there, the registry is
  unchanged, and every future except the matched one is as before. The matched future,
  if it is pending, is rejected with the decryption error when \<^verbatim>\<open>aes.decrypt\<close> throws
  and the response carries no error; it is resolved with the value that \<^verbatim>\<open>aes.decrypt\<close>
  returns when the call returns; and it is rejected with the payload when the response
  carries an error, before anything is decrypted.
\<close>

theorem decryption_outcome_is_local:
  assumes found: "find_request (requests (conn w)) (am_id msg) = Inr (Some r)"
      and enc: "am_encrypted msg"
      and nr: "\<not> api_resets L msg" and nt: "\<not> api_error_throws msg"
      and cipher: "otp (conn w) = Some o0"
      and key: "hotp_generate L (o0\<lparr> counter := am_id msg \<rparr>) = (key, o2)"
  shows "(\<forall>q. q \<noteq> rq_promise r \<longrightarrow> promise_of (on_api L msg w) q = promise_of w q)
       \<and> linked (conn (on_api L msg w)) = linked (conn w)
       \<and> authenticated (conn (on_api L msg w)) = authenticated (conn w)
       \<and> connected (conn (on_api L msg w)) = connected (conn w)
       \<and> identity (conn (on_api L msg w)) = identity (conn w)
       \<and> socket (conn (on_api L msg w)) = socket (conn w)
       \<and> otp (conn (on_api L msg w)) = Some o2
       \<and> requests (conn (on_api L msg w)) = requests (conn w)
       \<and> (promise_of w (rq_promise r) = Some Pending \<longrightarrow>
            promise_of (on_api L msg w) (rq_promise r)
              = Some (if am_error msg then Rejected (Val (am_payload msg))
                      else (case aes_decrypt L (am_payload msg) key of
                              Inl error \<Rightarrow> Rejected (Exn error)
                            | Inr decryptedValue \<Rightarrow> Resolved (Val (JStr decryptedValue)))))"
proof -
  note unfold = on_api_encrypted_unfold [OF found enc nr nt cipher key]
  have state: "conn (on_api L msg w) = (conn w)\<lparr> otp := Some o2 \<rparr>"
    unfolding unfold by (simp add: Let_def split: sum.splits)
  have others: "promise_of (on_api L msg w) q = promise_of w q" if "q \<noteq> rq_promise r" for q
    unfolding unfold using that
    by (simp add: Let_def promise_of_resolve promise_of_reject split: sum.splits)
  have mine: "promise_of (on_api L msg w) (rq_promise r)
              = Some (if am_error msg then Rejected (Val (am_payload msg))
                      else (case aes_decrypt L (am_payload msg) key of
                              Inl error \<Rightarrow> Rejected (Exn error)
                            | Inr decryptedValue \<Rightarrow> Resolved (Val (JStr decryptedValue))))"
    if "promise_of w (rq_promise r) = Some Pending"
    unfolding unfold using that
    by (simp add: Let_def promise_of_resolve promise_of_reject split: sum.splits)
  show ?thesis
    using others mine by (simp add: state)
qed

lemma stub_decrypt:
  "aes_decrypt stub_lib (JStr ''bm90IGEgY2lwaGVydGV4dA=='') ''5ea1/id-1'' = Inl ''Malformed UTF-8 data''"
  "aes_decrypt stub_lib (JStr ''0000/id-1|alice'') ''5ea1/id-1'' = Inr []"
  "aes_encrypt stub_lib ''alice'' ''0000/id-1'' = ''0000/id-1|alice''"
  by (simp_all add: stub_lib_def)

text \<open>
  In the run: the answer to the \<^verbatim>\<open>api\<close> request arrives with a payload that is no
  ciphertext, and decrypting it throws. The request's future is rejected with that
  error; the session stays linked; the future of the link request and the registry are
  as before.
\<close>

theorem decryption_outcome_is_local_witness:
  "find_request (requests (conn w_api_sent)) (am_id api_malformed) = Inr (Some api_request_1)
   \<and> am_encrypted api_malformed \<and> \<not> am_error api_malformed
   \<and> \<not> api_resets stub_lib api_malformed \<and> \<not> api_error_throws api_malformed
   \<and> promise_of w_api_sent 2 = Some Pending
   \<and> linked (conn w_api_sent)
   \<and> aes_decrypt stub_lib (am_payload api_malformed) ''5ea1/id-1'' = Inl ''Malformed UTF-8 data''
   \<and> promise_of (on_api stub_lib api_malformed w_api_sent) 2
       = Some (Rejected (Exn ''Malformed UTF-8 data''))
   \<and> promise_of (on_api stub_lib api_malformed w_api_sent) 1 = Some (Resolved (LinkMsg link_ok))
   \<and> linked (conn (on_api stub_lib api_malformed w_api_sent))
   \<and> requests (conn (on_api stub_lib api_malformed w_api_sent)) = [link_request_1, api_request_1]"
proof -
  have found:
    "find_request (requests (conn w_api_sent)) (am_id api_malformed) = Inr (Some api_request_1)"
    using find_api_request_1 by (simp add: api_malformed_def)
  have enc: "am_encrypted api_malformed" and noerr: "\<not> am_error api_malformed"
    and nr: "\<not> api_resets stub_lib api_malformed" and nt: "\<not> api_error_throws api_malformed"
    and payload: "am_payload api_malformed = JStr ''bm90IGEgY2lwaGVydGV4dA==''"
    by (simp_all add: api_malformed_def api_resets_def api_error_throws_def)
  have pending: "promise_of w_api_sent (rq_promise api_request_1) = Some Pending"
    by (simp add: w_api_sent_eq api_request_1_def promise_of_def)
  have cipher: "otp (conn w_api_sent) = Some \<lparr> hotp_secret = ''5ea1'', counter = JStr ''id-1'' \<rparr>"
    by (simp add: w_api_sent_eq)
  have key: "hotp_generate stub_lib (\<lparr> hotp_secret = ''5ea1'', counter = JStr ''id-1'' \<rparr>\<lparr> counter := am_id api_malformed \<rparr>)
             = (''5ea1/id-1'', \<lparr> hotp_secret = ''5ea1'', counter = JStr ''id-1'' \<rparr>)"
    by (simp add: stub_lib_def api_malformed_def)
  have before: "promise_of w_api_sent 1 = Some (Resolved (LinkMsg link_ok))"
               "linked (conn w_api_sent)"
               "requests (conn w_api_sent) = [link_request_1, api_request_1]"
               "rq_promise api_request_1 = 2"
    by (simp_all add: w_api_sent_eq promise_of_def api_request_1_def)
  show ?thesis
    using decryption_outcome_is_local [OF found enc nr nt cipher key]
          found enc noerr nr nt pending before
    by (simp add: payload stub_decrypt)
qed

text \<open>
  The claim as stated fails twice in the run. The answer encrypted under another key
  is not decrypted to what the wallet encrypted, yet \<^verbatim>\<open>aes.decrypt\<close> returns, and the
  request's future is resolved, with the empty string. And the answer that is an error
  and cannot be decrypted has its future rejected with the payload, not with the
  decryption error.
\<close>

theorem decryption_failure_counterexample:
  "am_payload api_garbled = JStr (aes_encrypt stub_lib ''alice'' ''0000/id-1'')
   \<and> aes_decrypt stub_lib (am_payload api_garbled) ''5ea1/id-1'' = Inr []
   \<and> promise_of w_api_sent 2 = Some Pending
   \<and> promise_of (on_api stub_lib api_garbled w_api_sent) 2 = Some (Resolved (Val (JStr [])))
   \<and> aes_decrypt stub_lib (am_payload api_malformed_error) ''5ea1/id-1''
       = Inl ''Malformed UTF-8 data''
   \<and> promise_of (on_api stub_lib api_malformed_error w_api_sent) 2
       = Some (Rejected (Val (JStr ''bm90IGEgY2lwaGVydGV4dA=='')))"
proof -
  have garbled: "promise_of (on_api stub_lib api_garbled w_api_sent) 2 = Some (Resolved (Val (JStr [])))"
    by (simp add: w_api_sent_eq api_garbled_def link_request_1_def api_request_1_def op_defs)
  have flagged: "promise_of (on_api stub_lib api_malformed_error w_api_sent) 2
                 = Some (Rejected (Val (JStr ''bm90IGEgY2lwaGVydGV4dA=='')))"
    by (simp add: w_api_sent_eq api_malformed_error_def link_request_1_def api_request_1_def op_defs)
  have pending: "promise_of w_api_sent 2 = Some Pending"
    by (simp add: w_api_sent_eq promise_of_def)
  show ?thesis
    using garbled flagged pending
    by (simp add: api_garbled_def api_malformed_error_def stub_decrypt)
qed

section \<open>The hash-chain cursor\<close>

lemma get_prop_set_prop:
  "get_prop (set_prop ps k v) k' = (if k' = k then v else get_prop ps k')"
  by (induction ps) auto

text \<open>A request that is not an \<^verbatim>\<open>api\<close> request: what \<^verbatim>\<open>sendRequest\<close> emits and keeps.\<close>

lemma sendRequest_plain_trace:
  "type \<noteq> ''api'' \<Longrightarrow>
   trace (snd (sendRequest L uuid type payload w))
     = (if connected (conn w) \<and> socket (conn w) \<noteq> None
        then trace w @ [Emit type (JStr uuid) payload] else trace w)"
  by (auto simp: sendRequest_def new_promise_def)

lemma sendRequest_plain_next_id:
  "type \<noteq> ''api'' \<Longrightarrow>
   next_identification (conn (snd (sendRequest L uuid type payload w)))
     = next_identification (conn w)"
  by (auto simp: sendRequest_def new_promise_def)

lemma link_send_next_id:
  "next_identification (conn (snd (link_send L uuid2 linkObj next_id w))) = next_id"
  by (simp add: link_send_def Let_def sendRequest_plain_next_id split: option.splits)

text \<open>
  What \<open>link_send\<close> emits: nothing, or one request whose \<^verbatim>\<open>next_hash\<close> is the hash of
  \<open>next_id\<close>.
\<close>

lemma link_send_trace:
  "trace (snd (link_send L uuid2 linkObj next_id w)) = trace w
   \<or> (\<exists>t pl h. trace (snd (link_send L uuid2 linkObj next_id w)) = trace w @ [Emit t (JStr uuid2) (JObj pl)]
         \<and> (t = ''linkRequest'' \<or> t = ''relinkRequest'')
         \<and> sha256 L next_id = Some h \<and> get_prop pl ''next_hash'' = JStr h)"
  by (simp add: link_send_def Let_def sendRequest_plain_trace get_prop_set_prop
           split: option.splits)

lemma link_send_emits:
  "fst (link_send L uuid2 linkObj next_id w) = LinkAwaiting p \<Longrightarrow>
   connected (conn w) \<Longrightarrow> socket (conn w) \<noteq> None \<Longrightarrow>
   \<exists>t pl h. trace (snd (link_send L uuid2 linkObj next_id w)) = trace w @ [Emit t (JStr uuid2) (JObj pl)]
         \<and> (t = ''linkRequest'' \<or> t = ''relinkRequest'')
         \<and> sha256 L next_id = Some h \<and> get_prop pl ''next_hash'' = JStr h"
  by (auto simp: link_send_def Let_def sendRequest_plain_trace get_prop_set_prop
           split: option.splits if_splits)

text \<open>
  C7. A successful \<^verbatim>\<open>fetch_ids\<close> returns the stored \<open>next_identification\<close> as the
  request id, stores the newly drawn id as the new \<open>next_identification\<close>, and returns
  the hash of that new id. A \<^verbatim>\<open>link\<close> call emits at most one request, a
  \<^verbatim>\<open>linkRequest\<close> or a \<^verbatim>\<open>relinkRequest\<close>, and the \<^verbatim>\<open>next_hash\<close> in it is the hash of the
  \<open>next_identification\<close> that the call has set; when the call gets as far as waiting
  for the answer on an open channel, it has emitted that request.
\<close>

theorem hash_chain_cursor:
  "(connected c \<and> authenticated c \<and> linked c \<longrightarrow>
      (\<exists>c'. fetch_ids L uuid c = Inr ((next_identification c, sha256_str L uuid), c')
            \<and> next_identification c' = JStr uuid
            \<and> sha256 L (next_identification c') = Some (sha256_str L uuid)))
   \<and> (trace (snd (link_start L privk uuid1 uuid2 chain requestDetails w)) = trace w
       \<or> (\<exists>t pl h.
             trace (snd (link_start L privk uuid1 uuid2 chain requestDetails w))
               = trace w @ [Emit t (JStr uuid2) (JObj pl)]
             \<and> (t = ''linkRequest'' \<or> t = ''relinkRequest'')
             \<and> sha256 L (next_identification (conn (snd (link_start L privk uuid1 uuid2 chain requestDetails w))))
                 = Some h
             \<and> get_prop pl ''next_hash'' = JStr h))
   \<and> (fst (link_start L privk uuid1 uuid2 chain requestDetails w) = LinkAwaiting p
        \<and> socket (conn w) \<noteq> None \<longrightarrow>
       (\<exists>t pl h.
             trace (snd (link_start L privk uuid1 uuid2 chain requestDetails w))
               = trace w @ [Emit t (JStr uuid2) (JObj pl)]
             \<and> (t = ''linkRequest'' \<or> t = ''relinkRequest'')
             \<and> sha256 L (next_identification (conn (snd (link_start L privk uuid1 uuid2 chain requestDetails w))))
                 = Some h
             \<and> get_prop pl ''next_hash'' = JStr h))"
proof (intro conjI)
  show "connected c \<and> authenticated c \<and> linked c \<longrightarrow>
      (\<exists>c'. fetch_ids L uuid c = Inr ((next_identification c, sha256_str L uuid), c')
            \<and> next_identification c' = JStr uuid
            \<and> sha256 L (next_identification c') = Some (sha256_str L uuid))"
    by (simp add: fetch_ids_def sha256_def)
next
  let ?r = "link_start L privk uuid1 uuid2 chain requestDetails w"
  show "trace (snd ?r) = trace w
       \<or> (\<exists>t pl h. trace (snd ?r) = trace w @ [Emit t (JStr uuid2) (JObj pl)]
             \<and> (t = ''linkRequest'' \<or> t = ''relinkRequest'')
             \<and> sha256 L (next_identification (conn (snd ?r))) = Some h
             \<and> get_prop pl ''next_hash'' = JStr h)"
    using link_send_trace [of L uuid2 _ _ "w\<lparr> conn := _ \<rparr>"]
    by (simp add: link_start_def Let_def link_send_next_id split: option.splits)
next
  let ?r = "link_start L privk uuid1 uuid2 chain requestDetails w"
  show "fst ?r = LinkAwaiting p \<and> socket (conn w) \<noteq> None \<longrightarrow>
       (\<exists>t pl h. trace (snd ?r) = trace w @ [Emit t (JStr uuid2) (JObj pl)]
             \<and> (t = ''linkRequest'' \<or> t = ''relinkRequest'')
             \<and> sha256 L (next_identification (conn (snd ?r))) = Some h
             \<and> get_prop pl ''next_hash'' = JStr h)"
    using link_send_emits [of L uuid2 _ _ "w\<lparr> conn := _ \<rparr>" p]
    by (auto simp: link_start_def Let_def link_send_next_id split: option.splits if_splits)
qed
text \<open>
  In the run: the first \<^verbatim>\<open>api\<close> request of the linked session draws its ids, and the
  \<^verbatim>\<open>link\<close> call of the connected session emits its request.
\<close>

theorem hash_chain_cursor_witness:
  "connected (conn w_linked) \<and> authenticated (conn w_linked) \<and> linked (conn w_linked)
   \<and> fetch_ids stub_lib ''id-2'' (conn w_linked)
       = Inr ((JStr ''id-1'', ''sha256:id-2''), (conn w_linked)\<lparr> next_identification := JStr ''id-2'' \<rparr>)
   \<and> fst (link_start stub_lib ''a1'' ''id-1'' ''rq-1'' (JStr ''BTS'') (JStr ''account'') w_connected)
       = LinkAwaiting 1
   \<and> socket (conn w_connected) = Some 1
   \<and> trace w_link_sent
       = trace w_connected
         @ [Emit ''linkRequest'' (JStr ''rq-1'')
              (JObj [(''chain'', JStr ''BTS''), (''request'', JStr ''account''),
                     (''pubkey'', JStr ''9ba1''), (''next_hash'', JStr ''sha256:id-1'')])]
   \<and> next_identification (conn w_link_sent) = JStr ''id-1''
   \<and> sha256 stub_lib (JStr ''id-1'') = Some ''sha256:id-1''"
proof -
  have flags: "connected (conn w_linked) \<and> authenticated (conn w_linked) \<and> linked (conn w_linked)"
    by (simp add: w_linked_eq)
  have ids: "fetch_ids stub_lib ''id-2'' (conn w_linked)
       = Inr ((JStr ''id-1'', ''sha256:id-2''), (conn w_linked)\<lparr> next_identification := JStr ''id-2'' \<rparr>)"
    by (simp add: w_linked_eq fetch_ids_def stub_lib_def Let_def)
  have awaiting:
    "fst (link_start stub_lib ''a1'' ''id-1'' ''rq-1'' (JStr ''BTS'') (JStr ''account'') w_connected)
       = LinkAwaiting 1"
    by (simp add: w_connected_eq op_defs)
  have sock: "socket (conn w_connected) = Some 1"
    by (simp add: w_connected_eq)
  have sent: "trace w_link_sent
       = trace w_connected
         @ [Emit ''linkRequest'' (JStr ''rq-1'')
              (JObj [(''chain'', JStr ''BTS''), (''request'', JStr ''account''),
                     (''pubkey'', JStr ''9ba1''), (''next_hash'', JStr ''sha256:id-1'')])]"
    by (simp add: w_link_sent_eq w_connected_eq link_request_1_def)
  have cursor: "next_identification (conn w_link_sent) = JStr ''id-1''"
    by (simp add: w_link_sent_eq)
  have h: "sha256 stub_lib (JStr ''id-1'') = Some ''sha256:id-1''"
    by (simp add: sha256_def stub_lib_def)
  show ?thesis
    using hash_chain_cursor [of "conn w_linked" stub_lib "''id-2''" "''a1''" "''id-1''" "''rq-1''"
                                "JStr ''BTS''" "JStr ''account''" w_connected 1]
          flags ids awaiting sock sent cursor h
    by simp
qed

section \<open>Relinking\<close>

text \<open>
  \<^verbatim>\<open>link\<close> on a connected session that stores an identity with an identity hash.
\<close>

lemma relink_unfold:
  assumes "connected (conn w)" and "identity (conn w) = Some idn"
      and "truthy (get_prop idn ''identityhash'')"
  shows "link_start L privk uuid1 uuid2 chain requestDetails w
         = link_send L uuid2 [(''chain'', chain), (''request'', requestDetails)]
             (get_prop idn ''next_id'')
             (w\<lparr> conn := (conn w)\<lparr> next_identification := get_prop idn ''next_id'',
                                     secret := get_prop idn ''secret'' \<rparr> \<rparr>)"
  using assms by (simp add: link_start_def identity_prop_def Let_def)

lemma relink_send_unfold:
  assumes "identity (conn w) = Some idn" and "truthy (get_prop idn ''identityhash'')"
      and "sha256 L next_id = Some h"
  shows "snd (link_send L uuid2 [(''chain'', chain), (''request'', requestDetails)] next_id w)
         = snd (sendRequest L uuid2 ''relinkRequest''
                  (JObj [(''chain'', chain), (''request'', requestDetails),
                         (''next_hash'', JStr h),
                         (''identityhash'', get_prop idn ''identityhash'')])
                  (w\<lparr> conn := (conn w)\<lparr> next_identification := next_id \<rparr> \<rparr>))"
  using assms by (simp add: link_send_def identity_prop_def Let_def)

text \<open>The key-agreement functions play no part in \<^verbatim>\<open>sendRequest\<close> and \<open>link_send\<close>.\<close>

lemma fetch_ids_key_agreement:
  "fetch_ids (L\<lparr> shared_secret_hex := f, public_key_hex := g \<rparr>) uuid c = fetch_ids L uuid c"
  by (simp add: fetch_ids_def)

lemma sendRequest_key_agreement:
  "sendRequest (L\<lparr> shared_secret_hex := f, public_key_hex := g \<rparr>) uuid type payload w
   = sendRequest L uuid type payload w"
  by (simp add: sendRequest_def fetch_ids_key_agreement Let_def
           split: prod.splits sum.splits jsval.splits option.splits)

lemma sha256_key_agreement:
  "sha256 (L\<lparr> shared_secret_hex := f, public_key_hex := g \<rparr>) v = sha256 L v"
  by (simp add: sha256_def split: jsval.splits)

lemma link_send_key_agreement:
  "link_send (L\<lparr> shared_secret_hex := f, public_key_hex := g \<rparr>) uuid2 linkObj next_id w
   = link_send L uuid2 linkObj next_id w"
  by (simp add: link_send_def sha256_key_agreement sendRequest_key_agreement Let_def
           split: option.splits)

text \<open>
  C6. The stored \<^verbatim>\<open>secret\<close> and \<^verbatim>\<open>next_id\<close> become the session's secret and cursor as
  they are. No key agreement takes part: the call does the same whatever the
  key-agreement functions and the private key drawn are. When the cursor can be hashed
  and the channel is open, the request goes out as a \<^verbatim>\<open>relinkRequest\<close> with the chain,
  the requested details, the hash and the stored identity hash, and without a public
  key; the call never emits anything else.
\<close>

theorem relink_reuses_secret_and_cursor:
  assumes connected: "connected (conn w)"
      and stored: "identity (conn w) = Some idn"
      and hash: "truthy (get_prop idn ''identityhash'')"
  shows "secret (conn (snd (link_start L privk uuid1 uuid2 chain requestDetails w)))
           = get_prop idn ''secret''
       \<and> next_identification (conn (snd (link_start L privk uuid1 uuid2 chain requestDetails w)))
           = get_prop idn ''next_id''
       \<and> link_start (L\<lparr> shared_secret_hex := f, public_key_hex := g \<rparr>) privk' uuid1' uuid2
            chain requestDetails w
           = link_start L privk uuid1 uuid2 chain requestDetails w
       \<and> (trace (snd (link_start L privk uuid1 uuid2 chain requestDetails w)) = trace w
           \<or> (\<exists>h. sha256 L (get_prop idn ''next_id'') = Some h
                \<and> trace (snd (link_start L privk uuid1 uuid2 chain requestDetails w))
                    = trace w
                      @ [Emit ''relinkRequest'' (JStr uuid2)
                           (JObj [(''chain'', chain), (''request'', requestDetails),
                                  (''next_hash'', JStr h),
                                  (''identityhash'', get_prop idn ''identityhash'')])]))
       \<and> (socket (conn w) \<noteq> None \<and> sha256 L (get_prop idn ''next_id'') = Some h \<longrightarrow>
             trace (snd (link_start L privk uuid1 uuid2 chain requestDetails w))
               = trace w
                 @ [Emit ''relinkRequest'' (JStr uuid2)
                      (JObj [(''chain'', chain), (''request'', requestDetails),
                             (''next_hash'', JStr h),
                             (''identityhash'', get_prop idn ''identityhash'')])]
             \<and> get_prop [(''chain'', chain), (''request'', requestDetails),
                          (''next_hash'', JStr h),
                          (''identityhash'', get_prop idn ''identityhash'')] ''pubkey''
                 = JUndefined)"
proof -
  let ?w1 = "w\<lparr> conn := (conn w)\<lparr> next_identification := get_prop idn ''next_id'',
                                   secret := get_prop idn ''secret'' \<rparr> \<rparr>"
  let ?linkObj = "[(''chain'', chain), (''request'', requestDetails)]"
  note start = relink_unfold [OF connected stored hash]
  have stored1: "identity (conn ?w1) = Some idn"
    using stored by simp
  have secret: "secret (conn (snd (link_start L privk uuid1 uuid2 chain requestDetails w)))
                = get_prop idn ''secret''"
    by (simp add: start link_send_flags)
  have cursor:
    "next_identification (conn (snd (link_start L privk uuid1 uuid2 chain requestDetails w)))
     = get_prop idn ''next_id''"
    by (simp add: start link_send_next_id)
  have same: "link_start (L\<lparr> shared_secret_hex := f, public_key_hex := g \<rparr>) privk' uuid1' uuid2
                chain requestDetails w
              = link_start L privk uuid1 uuid2 chain requestDetails w"
    by (simp add: relink_unfold [OF connected stored hash] link_send_key_agreement)
  have emitted:
    "trace (snd (link_start L privk uuid1 uuid2 chain requestDetails w))
       = (if socket (conn w) \<noteq> None
          then trace w
               @ [Emit ''relinkRequest'' (JStr uuid2)
                    (JObj [(''chain'', chain), (''request'', requestDetails),
                           (''next_hash'', JStr h'),
                           (''identityhash'', get_prop idn ''identityhash'')])]
          else trace w)"
    if "sha256 L (get_prop idn ''next_id'') = Some h'" for h'
    using connected
    by (simp add: start relink_send_unfold [OF stored1 hash that] sendRequest_plain_trace)
  have silent: "trace (snd (link_start L privk uuid1 uuid2 chain requestDetails w)) = trace w"
    if "sha256 L (get_prop idn ''next_id'') = None"
    using that by (simp add: start link_send_def)
  show ?thesis
    using secret cursor same emitted silent
    by (cases "sha256 L (get_prop idn ''next_id'')") auto
qed

lemma w_relink_sent_eq:
  "snd (link_start stub_lib ''a2'' ''id-3'' ''rq-2'' (JStr ''BTS'') (JStr ''account'') w_reconnected)
   = \<lparr> conn =
         \<lparr> appName = JStr ''App'', appHash = JStr ''a99'', browser = JStr ''Firefox'',
           origin = JStr ''localhost'', identity = Some stored_identity, conn_id = JNull,
           next_identification = JStr ''id-1'', connected = True, authenticated = False,
           linked = False, otp = None,
           requests =
             [\<lparr> rq_type = ''relinkRequest'', rq_id = JStr ''rq-2'',
                rq_payload =
                  JObj [(''chain'', JStr ''BTS''), (''request'', JStr ''account''),
                        (''next_hash'', JStr ''sha256:id-1''), (''identityhash'', JStr ''ih-7'')],
                rq_promise = 1 \<rparr>],
           socket = Some 2, secret = JStr ''5ea1'', beetkey = JUndefined \<rparr>,
       promises = [Pending, Pending],
       trace =
         [Emit ''authenticate'' (JStr ''u-1'')
            (JObj [(''origin'', JStr ''localhost''), (''appName'', JStr ''App''),
                   (''browser'', JStr ''Firefox''), (''identityhash'', JStr ''ih-7'')]),
          Emit ''relinkRequest'' (JStr ''rq-2'')
            (JObj [(''chain'', JStr ''BTS''), (''request'', JStr ''account''),
                   (''next_hash'', JStr ''sha256:id-1''), (''identityhash'', JStr ''ih-7'')])] \<rparr>"
  by (simp add: w_reconnected_eq stored_identity_def op_defs)

text \<open>
  In the run: the later session, connected with the stored identity, calls \<^verbatim>\<open>link\<close>.
\<close>

theorem relink_reuses_secret_and_cursor_witness:
  "connected (conn w_reconnected) \<and> identity (conn w_reconnected) = Some stored_identity
   \<and> truthy (get_prop stored_identity ''identityhash'')
   \<and> socket (conn w_reconnected) = Some 2
   \<and> sha256 stub_lib (get_prop stored_identity ''next_id'') = Some ''sha256:id-1''
   \<and> secret (conn (snd (link_start stub_lib ''a2'' ''id-3'' ''rq-2'' (JStr ''BTS'') (JStr ''account'') w_reconnected)))
       = JStr ''5ea1''
   \<and> next_identification (conn (snd (link_start stub_lib ''a2'' ''id-3'' ''rq-2'' (JStr ''BTS'') (JStr ''account'') w_reconnected)))
       = JStr ''id-1''
   \<and> trace (snd (link_start stub_lib ''a2'' ''id-3'' ''rq-2'' (JStr ''BTS'') (JStr ''account'') w_reconnected))
       = trace w_reconnected
         @ [Emit ''relinkRequest'' (JStr ''rq-2'')
              (JObj [(''chain'', JStr ''BTS''), (''request'', JStr ''account''),
                     (''next_hash'', JStr ''sha256:id-1''), (''identityhash'', JStr ''ih-7'')])]"
proof -
  have connected: "connected (conn w_reconnected)"
    and stored: "identity (conn w_reconnected) = Some stored_identity"
    and sock: "socket (conn w_reconnected) = Some 2"
    by (simp_all add: w_reconnected_eq)
  have hash: "truthy (get_prop stored_identity ''identityhash'')"
    by (simp add: stored_identity_def)
  have h: "sha256 stub_lib (get_prop stored_identity ''next_id'') = Some ''sha256:id-1''"
    by (simp add: stored_identity_def sha256_def stub_lib_def)
  have fields: "get_prop stored_identity ''secret'' = JStr ''5ea1''"
               "get_prop stored_identity ''next_id'' = JStr ''id-1''"
               "get_prop stored_identity ''identityhash'' = JStr ''ih-7''"
    by (simp_all add: stored_identity_def)
  show ?thesis
    using relink_reuses_secret_and_cursor [OF connected stored hash,
            of stub_lib "''a2''" "''id-3''" "''rq-2''" "JStr ''BTS''" "JStr ''account''"
               _ _ _ _ "''sha256:id-1''"]
          connected stored sock hash h fields
    by simp
qed

section \<open>The cipher's counter\<close>

text \<open>An \<^verbatim>\<open>api\<close> request of a linked session with a cipher, on an open channel.\<close>

lemma sendRequest_api_unfold:
  assumes "connected (conn w)" and "socket (conn w) \<noteq> None"
      and "authenticated (conn w)" and "linked (conn w)"
      and "otp (conn w) = Some o0"
      and "hotp_generate L (o0\<lparr> counter := next_identification (conn w) \<rparr>) = (key, o2)"
  shows "snd (sendRequest L uuid ''api'' (JObj fs) w)
         = push_and_emit
             \<lparr> rq_type = ''api'', rq_id = next_identification (conn w),
               rq_payload =
                 JStr (aes_encrypt L
                         (json_stringify L (JObj (set_prop fs ''next_hash'' (JStr (sha256_str L uuid)))))
                         key),
               rq_promise = length (promises w) \<rparr>
             (w\<lparr> promises := promises w @ [Pending],
                  conn := (conn w)\<lparr> next_identification := JStr uuid, otp := Some o2 \<rparr>,
                  trace := trace w
                    @ [Encrypted (o0\<lparr> counter := next_identification (conn w) \<rparr>)
                         (json_stringify L (JObj (set_prop fs ''next_hash'' (JStr (sha256_str L uuid)))))] \<rparr>)"
  using assms by (auto simp: sendRequest_def new_promise_def fetch_ids_def Let_def)

text \<open>
  An encrypted \<^verbatim>\<open>api\<close> response that matches an entry, neither resets the session nor
  makes the error branch throw, and meets a cipher.
\<close>

lemma api_error_total:
  "\<not> api_error_throws msg \<Longrightarrow> \<exists>w1. api_error L msg r w = Some w1"
  by (cases "am_payload msg") (simp_all add: api_error_def api_error_throws_def)

lemma on_api_encrypted_trace:
  assumes "find_request (requests (conn w)) (am_id msg) = Inr (Some r)"
      and "am_encrypted msg" and "\<not> api_resets L msg" and "\<not> api_error_throws msg"
      and "otp (conn w) = Some o0"
  shows "trace (on_api L msg w)
         = trace w @ [Decrypted (o0\<lparr> counter := am_id msg \<rparr>) (am_payload msg)]"
proof -
  obtain w1 where w1: "api_error L msg r w = Some w1"
    using api_error_total [OF assms(4)] by blast
  have c1: "conn w1 = conn w"
    using api_error_conn [OF w1] assms(3) by simp
  have t1: "trace w1 = trace w"
    by (rule api_error_trace [OF w1])
  show ?thesis
    using assms(1,2,5) w1 c1 t1
    by (simp add: on_api_def Let_def split: prod.splits sum.splits)
qed

lemma counter_is_message_id:
  "(connected (conn w) \<and> socket (conn w) \<noteq> None \<and> authenticated (conn w) \<and> linked (conn w)
     \<and> otp (conn w) = Some o0
     \<and> hotp_generate L (o0\<lparr> counter := next_identification (conn w) \<rparr>) = (key, o2) \<longrightarrow>
      trace (snd (sendRequest L uuid ''api'' (JObj fs) w))
        = trace w
          @ [Encrypted (o0\<lparr> counter := next_identification (conn w) \<rparr>)
               (json_stringify L (JObj (set_prop fs ''next_hash'' (JStr (sha256_str L uuid))))),
             Emit ''api'' (next_identification (conn w))
               (JStr (aes_encrypt L
                        (json_stringify L (JObj (set_prop fs ''next_hash'' (JStr (sha256_str L uuid)))))
                        key))])
   \<and> (find_request (requests (conn w)) (am_id msg) = Inr (Some r)
       \<and> am_encrypted msg \<and> \<not> api_resets L msg \<and> \<not> api_error_throws msg
       \<and> otp (conn w) = Some o0 \<longrightarrow>
      trace (on_api L msg w)
        = trace w @ [Decrypted (o0\<lparr> counter := am_id msg \<rparr>) (am_payload msg)])"
  by (simp add: sendRequest_api_unfold [of w o0 L key o2] on_api_encrypted_trace)

text \<open>The encryptions of a trace.\<close>

lemma encryptions_append [simp]: "encryptions (a @ b) = encryptions a @ encryptions b"
  by (simp add: encryptions_def)

lemma encryptions_single [simp]:
  "encryptions [Encrypted h plain] = [(hotp_secret h, counter h, plain)]"
  "encryptions [Emit t i pl] = []"
  by (simp_all add: encryptions_def)

lemma counter_reused_snoc:
  "(s, n, plain1) \<in> set us \<Longrightarrow> plain1 \<noteq> plain2 \<Longrightarrow> counter_reused (us @ [(s, n, plain2)])"
  unfolding counter_reused_def list_ex_iff
  by (intro bexI [of _ "(s, n, plain1)"] bexI [of _ "(s, n, plain2)"]) simp_all

lemma api_request_keeps_stored_cursor:
  "identity (conn (snd (sendRequest L uuid type payload w))) = identity (conn w)"
  by (simp add: sendRequest_flags)

lemma link_send_encryptions:
  "encryptions (trace (snd (link_send L uuid2 linkObj next_id w))) = encryptions (trace w)"
proof -
  from link_send_trace [of L uuid2 linkObj next_id w]
  show ?thesis
  proof
    assume "trace (snd (link_send L uuid2 linkObj next_id w)) = trace w"
    then show ?thesis by simp
  next
    assume "\<exists>t pl h. trace (snd (link_send L uuid2 linkObj next_id w)) = trace w @ [Emit t (JStr uuid2) (JObj pl)]
         \<and> (t = ''linkRequest'' \<or> t = ''relinkRequest'')
         \<and> sha256 L next_id = Some h \<and> get_prop pl ''next_hash'' = JStr h"
    then obtain t pl where
      "trace (snd (link_send L uuid2 linkObj next_id w)) = trace w @ [Emit t (JStr uuid2) (JObj pl)]"
      by blast
    then show ?thesis by simp
  qed
qed

lemma sendRequest_socket:
  "socket (conn (snd (sendRequest L uuid type payload w))) = socket (conn w)"
  by (auto simp: sendRequest_def new_promise_def fetch_ids_def Let_def
           split: sum.splits option.splits prod.splits jsval.splits if_splits)

lemma link_send_socket:
  "socket (conn (snd (link_send L uuid2 linkObj next_id w))) = socket (conn w)"
  by (simp add: link_send_def Let_def sendRequest_socket split: option.splits)

lemma on_link_accepted:
  assumes "find_request (requests (conn w)) (lm_id linkRequest) = Inr (Some r)"
      and "\<not> lm_error linkRequest"
      and "secret_fromHex L (secret (conn w)) = Some s"
  shows "otp (conn (on_link L linkRequest w)) = Some \<lparr> hotp_secret = s, counter = JNum 0 \<rparr>
       \<and> linked (conn (on_link L linkRequest w)) = lm_link linkRequest
       \<and> authenticated (conn (on_link L linkRequest w)) = lm_authenticate linkRequest
       \<and> connected (conn (on_link L linkRequest w)) = connected (conn w)
       \<and> socket (conn (on_link L linkRequest w)) = socket (conn w)
       \<and> next_identification (conn (on_link L linkRequest w)) = next_identification (conn w)
       \<and> trace (on_link L linkRequest w) = trace w"
  using assms by (simp add: on_link_def Let_def)

text \<open>
  C5 on the code. The counter is set to the id of the message before the key is
  generated, in \<^verbatim>\<open>sendRequest\<close> and in the \<^verbatim>\<open>api\<close> handler (\<open>counter_is_message_id\<close>).
  But a counter value is used again for another payload under the same secret: the
  \<^verbatim>\<open>link\<close> handler stores the cursor in the identity as \<^verbatim>\<open>next_id\<close>, \<^verbatim>\<open>fetch_ids\<close>
  advances \<^verbatim>\<open>this.next_identification\<close> only, and a relink copies the stored
  \<^verbatim>\<open>next_id\<close> back. So on a connected session that stores an identity, after \<^verbatim>\<open>link\<close>
  and the wallet's acceptance, the next \<^verbatim>\<open>api\<close> request is encrypted under the stored
  secret with the stored \<^verbatim>\<open>next_id\<close> as counter, whatever was encrypted before; if an
  earlier request with another plaintext used that secret and that counter, the counter
  is reused.
\<close>

theorem relink_replays_cursor:
  assumes connected: "connected (conn w)"
      and channel: "socket (conn w) \<noteq> None"
      and stored: "identity (conn w) = Some idn"
      and hash: "truthy (get_prop idn ''identityhash'')"
      and found: "find_request
                    (requests (conn (snd (link_start L privk uuid1 uuid2 chain requestDetails w))))
                    (lm_id linkRequest) = Inr (Some r)"
      and accepted: "\<not> lm_error linkRequest \<and> lm_link linkRequest \<and> lm_authenticate linkRequest"
      and hex: "secret_fromHex L (get_prop idn ''secret'') = Some s"
      and key: "hotp_generate L \<lparr> hotp_secret = s, counter = get_prop idn ''next_id'' \<rparr> = (k, o2)"
  shows "encryptions
           (trace (snd (sendRequest L uuid ''api'' (JObj fs)
                          (on_link L linkRequest
                             (snd (link_start L privk uuid1 uuid2 chain requestDetails w))))))
         = encryptions (trace w)
           @ [(s, get_prop idn ''next_id'',
               json_stringify L (JObj (set_prop fs ''next_hash'' (JStr (sha256_str L uuid)))))]
       \<and> ((s, get_prop idn ''next_id'', plain1) \<in> set (encryptions (trace w))
            \<and> plain1 \<noteq> json_stringify L (JObj (set_prop fs ''next_hash'' (JStr (sha256_str L uuid))))
           \<longrightarrow> counter_reused
                 (encryptions
                    (trace (snd (sendRequest L uuid ''api'' (JObj fs)
                                   (on_link L linkRequest
                                      (snd (link_start L privk uuid1 uuid2 chain requestDetails w))))))))"
proof -
  let ?n = "get_prop idn ''next_id''"
  let ?w0 = "w\<lparr> conn := (conn w)\<lparr> next_identification := ?n, secret := get_prop idn ''secret'' \<rparr> \<rparr>"
  let ?w2 = "snd (link_start L privk uuid1 uuid2 chain requestDetails w)"
  let ?w3 = "on_link L linkRequest ?w2"
  let ?plain = "json_stringify L (JObj (set_prop fs ''next_hash'' (JStr (sha256_str L uuid))))"
  have start: "?w2 = snd (link_send L uuid2 [(''chain'', chain), (''request'', requestDetails)] ?n ?w0)"
    by (simp add: relink_unfold [OF connected stored hash])
  have w2: "connected (conn ?w2)" "socket (conn ?w2) \<noteq> None"
           "secret (conn ?w2) = get_prop idn ''secret''"
           "next_identification (conn ?w2) = ?n"
           "encryptions (trace ?w2) = encryptions (trace w)"
    using connected channel
    by (simp_all add: start link_send_flags link_send_socket link_send_next_id link_send_encryptions)
  have hex2: "secret_fromHex L (secret (conn ?w2)) = Some s"
    using hex w2(3) by simp
  note w3 = on_link_accepted [OF found conjunct1 [OF accepted] hex2]
  have session: "connected (conn ?w3)" "socket (conn ?w3) \<noteq> None"
                "authenticated (conn ?w3)" "linked (conn ?w3)"
                "otp (conn ?w3) = Some \<lparr> hotp_secret = s, counter = JNum 0 \<rparr>"
    using w3 w2 accepted by simp_all
  have key3: "hotp_generate L (\<lparr> hotp_secret = s, counter = JNum 0 \<rparr>
                                \<lparr> counter := next_identification (conn ?w3) \<rparr>) = (k, o2)"
    using key w3 w2(4) by simp
  have cursor3: "next_identification (conn ?w3) = ?n"
    using w3 w2(4) by simp
  have sent: "trace (snd (sendRequest L uuid ''api'' (JObj fs) ?w3))
              = trace ?w3
                @ [Encrypted (\<lparr> hotp_secret = s, counter = JNum 0 \<rparr>
                               \<lparr> counter := next_identification (conn ?w3) \<rparr>) ?plain,
                   Emit ''api'' (next_identification (conn ?w3)) (JStr (aes_encrypt L ?plain k))]"
    by (simp add: sendRequest_api_unfold [OF session key3])
  have trace3: "trace ?w3 = trace ?w2"
    using w3 by simp
  have last: "encryptions (trace (snd (sendRequest L uuid ''api'' (JObj fs) ?w3)))
              = encryptions (trace ?w3) @ [(s, next_identification (conn ?w3), ?plain)]"
    unfolding sent by (simp add: encryptions_def)
  have all: "encryptions (trace (snd (sendRequest L uuid ''api'' (JObj fs) ?w3)))
             = encryptions (trace w) @ [(s, ?n, ?plain)]"
    unfolding last cursor3 trace3 w2(5) by (rule refl)
  show ?thesis
    unfolding all using counter_reused_snoc [of s ?n plain1 "encryptions (trace w)" ?plain]
    by simp
qed

lemma stub_lib_simps:
  "sha256_str stub_lib s = ''sha256:'' @ s"
  "aes_encrypt stub_lib plain key = key @ ''|'' @ plain"
  "hotp_generate stub_lib h
     = (hotp_secret h @ ''/'' @ (case js_toString (counter h) of Some s \<Rightarrow> s | None \<Rightarrow> []), h)"
  "secret_fromHex stub_lib (JStr s) = (if is_hex s then Some s else None)"
  by (simp_all add: stub_lib_def)

lemma w_again_eq:
  "w_again =
     \<lparr> conn =
         \<lparr> appName = JStr ''App'', appHash = JStr ''a99'', browser = JStr ''Firefox'',
           origin = JStr ''localhost'', identity = Some session_identity, conn_id = JNull,
           next_identification = JStr ''id-2'', connected = True, authenticated = True,
           linked = True, otp = Some \<lparr> hotp_secret = ''5ea1'', counter = JNum 0 \<rparr>,
           requests = [], socket = Some 2, secret = JStr ''5ea1'', beetkey = JStr ''0b0e'' \<rparr>,
       promises =
         [Resolved (AuthMsg auth_unlinked), Resolved (LinkMsg link_ok),
          Resolved (Val (JStr ''alice'')), Resolved (AuthMsg auth_linked)],
       trace =
         [Emit ''authenticate'' (JStr ''u-0'')
            (JObj [(''origin'', JStr ''localhost''), (''appName'', JStr ''App''),
                   (''browser'', JStr ''Firefox'')]),
          Emit ''linkRequest'' (JStr ''rq-1'') (rq_payload link_request_1),
          Encrypted \<lparr> hotp_secret = ''5ea1'', counter = JStr ''id-1'' \<rparr>
            ''method=getAccount;next_hash=sha256:id-2;'',
          Emit ''api'' (JStr ''id-1'') (JStr ''5ea1/id-1|method=getAccount;next_hash=sha256:id-2;''),
          Decrypted \<lparr> hotp_secret = ''5ea1'', counter = JStr ''id-1'' \<rparr> (JStr ''5ea1/id-1|alice''),
          Emit ''authenticate'' (JStr ''u-1'')
            (JObj [(''origin'', JStr ''localhost''), (''appName'', JStr ''App''),
                   (''browser'', JStr ''Firefox''), (''identityhash'', JStr ''ih-7'')])] \<rparr>"
  by (simp add: w_again_def w_api_answered_def w_api_sent_eq api_answer_def auth_linked_def
                session_identity_def link_request_1_def api_request_1_def op_defs)

lemma requests_relink_sent: "requests (conn w_relink_sent) = [relink_request]"
  by (simp add: w_relink_sent_def w_again_eq session_identity_def relink_request_def op_defs)

text \<open>
  In the run: the first \<^verbatim>\<open>api\<close> request of the linked session was encrypted under the
  secret \<^verbatim>\<open>5ea1\<close> and the counter \<^verbatim>\<open>id-1\<close>. The session connects again with its
  identity, whose \<^verbatim>\<open>next_id\<close> is still \<^verbatim>\<open>id-1\<close>, relinks, and its next \<^verbatim>\<open>api\<close>
  request, another payload, is encrypted under the same secret and the same counter.
\<close>

theorem relink_replays_cursor_witness:
  "connected (conn w_again) \<and> socket (conn w_again) = Some 2
   \<and> identity (conn w_again) = Some session_identity
   \<and> truthy (get_prop session_identity ''identityhash'')
   \<and> get_prop session_identity ''next_id'' = JStr ''id-1''
   \<and> next_identification (conn w_again) = JStr ''id-2''
   \<and> find_request (requests (conn w_relink_sent)) (lm_id relink_ok) = Inr (Some relink_request)
   \<and> \<not> lm_error relink_ok \<and> lm_link relink_ok \<and> lm_authenticate relink_ok
   \<and> secret_fromHex stub_lib (get_prop session_identity ''secret'') = Some ''5ea1''
   \<and> encryptions (trace w_again)
       = [(''5ea1'', JStr ''id-1'', ''method=getAccount;next_hash=sha256:id-2;'')]
   \<and> encryptions (trace w_second_request)
       = [(''5ea1'', JStr ''id-1'', ''method=getAccount;next_hash=sha256:id-2;''),
          (''5ea1'', JStr ''id-1'', ''method=transfer;to=bob;next_hash=sha256:id-4;'')]
   \<and> counter_reused (encryptions (trace w_second_request))"
proof -
  have connected: "connected (conn w_again)"
    and channel: "socket (conn w_again) \<noteq> None"
    and sock: "socket (conn w_again) = Some 2"
    and stored: "identity (conn w_again) = Some session_identity"
    and cursor: "next_identification (conn w_again) = JStr ''id-2''"
    by (simp_all add: w_again_eq)
  have before: "encryptions (trace w_again)
                = [(''5ea1'', JStr ''id-1'', ''method=getAccount;next_hash=sha256:id-2;'')]"
    by (simp add: w_again_eq encryptions_def)
  have fields: "get_prop session_identity ''identityhash'' = JStr ''ih-7''"
               "get_prop session_identity ''next_id'' = JStr ''id-1''"
               "get_prop session_identity ''secret'' = JStr ''5ea1''"
    by (simp_all add: session_identity_def)
  have hash: "truthy (get_prop session_identity ''identityhash'')"
    by (simp add: fields)
  have found: "find_request
                 (requests (conn (snd (link_start stub_lib ''a2'' ''id-3'' ''rq-2'' (JStr ''BTS'')
                                         (JStr ''account'') w_again))))
                 (lm_id relink_ok) = Inr (Some relink_request)"
    using requests_relink_sent
    by (simp add: w_relink_sent_def relink_ok_def relink_request_def)
  have accepted: "\<not> lm_error relink_ok \<and> lm_link relink_ok \<and> lm_authenticate relink_ok"
    by (simp add: relink_ok_def)
  have hex: "secret_fromHex stub_lib (get_prop session_identity ''secret'') = Some ''5ea1''"
    by (simp add: fields stub_lib_simps)
  have key: "hotp_generate stub_lib
               \<lparr> hotp_secret = ''5ea1'', counter = get_prop session_identity ''next_id'' \<rparr>
             = (''5ea1/id-1'', \<lparr> hotp_secret = ''5ea1'', counter = JStr ''id-1'' \<rparr>)"
    by (simp add: fields stub_lib_simps)
  have run: "snd (sendRequest stub_lib ''id-4'' ''api''
                    (JObj [(''method'', JStr ''transfer''), (''to'', JStr ''bob'')])
                    (on_link stub_lib relink_ok
                       (snd (link_start stub_lib ''a2'' ''id-3'' ''rq-2'' (JStr ''BTS'')
                               (JStr ''account'') w_again))))
             = w_second_request"
    by (simp add: w_second_request_def w_relinked_def w_relink_sent_def)
  have plain: "json_stringify stub_lib
                 (JObj (set_prop [(''method'', JStr ''transfer''), (''to'', JStr ''bob'')] ''next_hash''
                          (JStr (sha256_str stub_lib ''id-4''))))
               = ''method=transfer;to=bob;next_hash=sha256:id-4;''"
    by (simp add: stub_lib_def stub_stringify_def)
  note replay =
    relink_replays_cursor [OF connected channel stored hash found accepted hex key,
      of "''id-4''" "[(''method'', JStr ''transfer''), (''to'', JStr ''bob'')]"
         "''method=getAccount;next_hash=sha256:id-2;''", unfolded run plain fields before]
  have uses: "encryptions (trace w_second_request)
       = [(''5ea1'', JStr ''id-1'', ''method=getAccount;next_hash=sha256:id-2;''),
          (''5ea1'', JStr ''id-1'', ''method=transfer;to=bob;next_hash=sha256:id-4;'')]"
    using replay [THEN conjunct1] by simp
  have reused: "counter_reused (encryptions (trace w_second_request))"
    using replay [THEN conjunct2] by simp
  show ?thesis
    using connected sock stored hash fields(2) cursor found accepted hex before uses reused
    by (simp add: w_relink_sent_def)
qed

end
